theory Spec2Isabelle
  imports Main "HOL-Library.Word" "HOL-Library.Monad_Syntax" "HOL-Library.Sublist"
begin

unbundle bit_operations_syntax

section \<open>The I2C master library (I2C.cpp): data model\<close>

type_synonym u8 = "8 word"
type_synonym u16 = "16 word"

text \<open>
  The macros of the header \<^verbatim>\<open>I2C.h\<close>, which I2C.cpp includes and uses by name only: the
  status codes that \<^verbatim>\<open>TWI_STATUS\<close> is compared with, the capacity of the internal
  receive buffer and the two address macros. Every function of the model takes them as
  the parameter \<open>h\<close>; the theorems hold for every choice of them unless a hypothesis
  says otherwise.
\<close>

record i2c_h =
  START :: u8
  REPEATED_START :: u8
  MT_SLA_ACK :: u8
  MT_SLA_NACK :: u8
  MT_DATA_ACK :: u8
  MT_DATA_NACK :: u8
  MR_SLA_ACK :: u8
  MR_SLA_NACK :: u8
  MR_DATA_ACK :: u8
  MR_DATA_NACK :: u8
  LOST_ARBTRTN :: u8
  MAX_BUFFER_SIZE :: nat
  SLA_W :: "u8 \<Rightarrow> u8"
  SLA_R :: "u8 \<Rightarrow> u8"

text \<open>
  The values of the AVR two-wire interface (status register codes of the master
  transmitter and master receiver modes, write and read address bytes) with a 32 byte
  buffer: the instance the concrete evaluations below run on.
\<close>

definition avr :: i2c_h where
  "avr = \<lparr> START = 0x08, REPEATED_START = 0x10, MT_SLA_ACK = 0x18, MT_SLA_NACK = 0x20,
           MT_DATA_ACK = 0x28, MT_DATA_NACK = 0x30, MR_SLA_ACK = 0x40, MR_SLA_NACK = 0x48,
           MR_DATA_ACK = 0x50, MR_DATA_NACK = 0x58, LOST_ARBTRTN = 0x38,
           MAX_BUFFER_SIZE = 32,
           SLA_W = (\<lambda>address. push_bit 1 address),
           SLA_R = (\<lambda>address. push_bit 1 address + 0x01) \<rparr>"

text \<open>
  The mode arguments of the error handlers, with the values that the comments above
  \<^verbatim>\<open>start_error_handler\<close> and \<^verbatim>\<open>send_addr_error_handler\<close> give them.
\<close>

definition START_MODE :: u8 where "START_MODE = 0"
definition REPEATED_START_MODE :: u8 where "REPEATED_START_MODE = 1"
definition TRANSMIT_MODE :: u8 where "TRANSMIT_MODE = 0"
definition RECEIVER_MODE :: u8 where "RECEIVER_MODE = 1"

text \<open>
  The peripheral is an external collaborator. What the driver asks of it is recorded as
  the list of commands issued (each one a write of the control register, after a write of
  the data register for an address or a data byte; \<open>Reset\<close> is the disable and re-enable
  of \<^verbatim>\<open>lockUp\<close>). What it answers is an oracle: the \<open>k\<close>-th busy-wait of a run sees
  either the awaited flag change, with the status code and the content of the data
  register at that moment, or no change for as long as the loop looks.
\<close>

datatype twi_command =
  IssueStart | IssueAddress u8 | IssueByte u8 | IssueReceive bool | IssueStop | Reset

datatype twi_response = Completed u8 u8 | Stalled

datatype serial_line =
  Scanning | Blank | BusProblem | FoundDevice u8 | NoDevicesFound

record i2c =
  bytesAvailable :: u8
  bufferIndex :: u8
  totalBytes :: u8
  timeOutDelay :: u16
  data :: "nat \<Rightarrow> u8"
  TWDR :: u8
  twi :: "nat \<Rightarrow> twi_response"
  waits :: nat
  bus :: "twi_command list"
  serial :: "serial_line list"

text \<open>
  The state after static initialisation (the four counters are 0, the buffer is
  zero-initialised static storage) and a call \<^verbatim>\<open>timeOut(t)\<close>, in front of a peripheral
  that answers as \<open>answers\<close> says.
\<close>

definition timeOut :: "u16 \<Rightarrow> i2c \<Rightarrow> i2c" where
  "timeOut t s = s\<lparr>timeOutDelay := t\<rparr>"

definition power_on :: "(nat \<Rightarrow> twi_response) \<Rightarrow> i2c" where
  "power_on answers =
     \<lparr> bytesAvailable = 0, bufferIndex = 0, totalBytes = 0, timeOutDelay = 0,
       data = (\<lambda>_. 0), TWDR = 0, twi = answers, waits = 0, bus = [], serial = [] \<rparr>"

text \<open>The oracle that answers the first waits from a list and stalls afterwards.\<close>

definition script :: "twi_response list \<Rightarrow> nat \<Rightarrow> twi_response" where
  "script rs k = (if k < length rs then rs ! k else Stalled)"

section \<open>Low-level methods\<close>

definition issue :: "twi_command \<Rightarrow> i2c \<Rightarrow> i2c" where
  "issue c s = s\<lparr>bus := bus s @ [c]\<rparr>"

definition lockUp :: "i2c \<Rightarrow> i2c" where
  "lockUp s = issue Reset s"

text \<open>
  The busy-wait shared by the five primitives:
  \<^verbatim>\<open>while (flag not changed) { if (!timeOutDelay) continue; if (elapsed >= timeOutDelay) { lockUp(); return 1; } }\<close>
  It leaves the loop when the flag changes; when the flag never changes it spins for ever
  with the timeout disabled (\<open>None\<close>: the primitive does not return) and gives up at the
  deadline otherwise.
\<close>

datatype poll_result = Ready u8 u8 | TimedOut

definition poll :: "i2c \<Rightarrow> (poll_result \<times> i2c) option" where
  "poll s =
     (case twi s (waits s) of
        Completed st d \<Rightarrow> Some (Ready st d, s\<lparr>waits := Suc (waits s)\<rparr>)
      | Stalled \<Rightarrow>
          if timeOutDelay s = 0 then None
          else Some (TimedOut, s\<lparr>waits := Suc (waits s)\<rparr>))"

definition stop :: "i2c \<Rightarrow> (u8 \<times> i2c) option" where
  "stop s = do {
     (r, s) \<leftarrow> poll (issue IssueStop s);
     case r of
       TimedOut \<Rightarrow> Some (1, lockUp s)
     | Ready st d \<Rightarrow> Some (0, s)
   }"

definition start :: "i2c_h \<Rightarrow> i2c \<Rightarrow> (u8 \<times> i2c) option" where
  "start h s = do {
     (r, s) \<leftarrow> poll (issue IssueStart s);
     case r of
       TimedOut \<Rightarrow> Some (1, lockUp s)
     | Ready st d \<Rightarrow>
         if st = START h \<or> st = REPEATED_START h then Some (0, s)
         else if st = LOST_ARBTRTN h then Some (st, lockUp s)
         else Some (st, s)
   }"

definition sendAddress :: "i2c_h \<Rightarrow> u8 \<Rightarrow> i2c \<Rightarrow> (u8 \<times> i2c) option" where
  "sendAddress h i2cAddress s = do {
     (r, s) \<leftarrow> poll (issue (IssueAddress i2cAddress) (s\<lparr>TWDR := i2cAddress\<rparr>));
     case r of
       TimedOut \<Rightarrow> Some (1, lockUp s)
     | Ready st d \<Rightarrow>
         if st = MT_SLA_ACK h \<or> st = MR_SLA_ACK h then Some (0, s)
         else if st = MT_SLA_NACK h \<or> st = MR_SLA_NACK h
           then do { (_, s) \<leftarrow> stop s; Some (st, s) }
         else Some (st, lockUp s)
   }"

definition sendByte :: "i2c_h \<Rightarrow> u8 \<Rightarrow> i2c \<Rightarrow> (u8 \<times> i2c) option" where
  "sendByte h i2cData s = do {
     (r, s) \<leftarrow> poll (issue (IssueByte i2cData) (s\<lparr>TWDR := i2cData\<rparr>));
     case r of
       TimedOut \<Rightarrow> Some (1, lockUp s)
     | Ready st d \<Rightarrow>
         if st = MT_DATA_ACK h then Some (0, s)
         else if st = MT_DATA_NACK h
           then do { (_, s) \<leftarrow> stop s; Some (st, s) }
         else Some (st, lockUp s)
   }"

text \<open>\<^verbatim>\<open>_receiveByte(uint8_t ack)\<close>: the byte clocked in is left in the data register.\<close>

definition receiveByte :: "i2c_h \<Rightarrow> u8 \<Rightarrow> i2c \<Rightarrow> (u8 \<times> i2c) option" where
  "receiveByte h ack s = do {
     (r, s) \<leftarrow> poll (issue (IssueReceive (ack \<noteq> 0)) s);
     case r of
       TimedOut \<Rightarrow> Some (1, lockUp s)
     | Ready st d \<Rightarrow>
         let s = s\<lparr>TWDR := d\<rparr> in
         if st = LOST_ARBTRTN h then Some (st, lockUp s)
         else if ack \<noteq> 0 then (if st = MR_DATA_ACK h then Some (0, s) else Some (st, s))
         else (if st = MR_DATA_NACK h then Some (0, s) else Some (st, s))
   }"

section \<open>Error handlers\<close>

text \<open>
  A \<^verbatim>\<open>switch\<close> on the mode with two cases and no default: any other mode falls out of it
  to the final \<^verbatim>\<open>return (returnStatus)\<close>.
\<close>

definition start_error_handler :: "u8 \<Rightarrow> u8 \<Rightarrow> u8" where
  "start_error_handler returnStatus mode =
     (if returnStatus = 1 then
        (if mode = START_MODE then 1
         else if mode = REPEATED_START_MODE then 4
         else returnStatus)
      else returnStatus)"

definition stop_error_handler :: "u8 \<Rightarrow> u8" where
  "stop_error_handler returnStatus = (if returnStatus = 1 then 7 else returnStatus)"

definition receive_error_handler :: "u8 \<Rightarrow> u8" where
  "receive_error_handler returnStatus = (if returnStatus = 1 then 6 else returnStatus)"

definition send_error_handler :: "u8 \<Rightarrow> u8" where
  "send_error_handler returnStatus = (if returnStatus = 1 then 3 else returnStatus)"

definition send_addr_error_handler :: "u8 \<Rightarrow> u8 \<Rightarrow> u8" where
  "send_addr_error_handler returnStatus mode =
     (if returnStatus = 1 then
        (if mode = TRANSMIT_MODE then 2
         else if mode = RECEIVER_MODE then 5
         else returnStatus)
      else returnStatus)"

text \<open>
  \<^verbatim>\<open>_receiveByte(uint8_t ack, uint8_t *target)\<close>: the second component of the result is
  the byte stored through \<open>target\<close>; both paths of the source store one.
\<close>

definition receiveByte_into :: "i2c_h \<Rightarrow> u8 \<Rightarrow> i2c \<Rightarrow> (u8 \<times> u8 \<times> i2c) option" where
  "receiveByte_into h ack s = do {
     (stat, s) \<leftarrow> receiveByte h ack s;
     if stat \<noteq> 0 then Some (receive_error_handler stat, 0x00, s)
     else Some (0, TWDR s, s)
   }"

section \<open>The internal buffer\<close>

definition available :: "i2c \<Rightarrow> u8" where
  "available s = bytesAvailable s"

definition receive :: "i2c \<Rightarrow> u8 \<times> i2c" where
  "receive s =
     (let s = s\<lparr>bufferIndex := totalBytes s - bytesAvailable s\<rparr> in
      if bytesAvailable s = 0 then (0, s\<lparr>bufferIndex := 0\<rparr>)
      else
        let s = s\<lparr>bytesAvailable := bytesAvailable s - 1\<rparr> in
        (data s (unat (bufferIndex s)), s))"

section \<open>Transaction sequencer: writes with an 8-bit register address\<close>

text \<open>
  Every entry point returns \<open>None\<close> when one of its busy-waits never ends, and otherwise
  its return value with the state it leaves. A pointer argument is the memory behind it:
  \<open>dataPtr i\<close> is the byte at \<^verbatim>\<open>data[i]\<close>.
\<close>

datatype ('r, 'v) loop_exit = Return 'r | Finished 'v

text \<open>
  \<^verbatim>\<open>uint8_t I2C::write(uint8_t address, uint8_t registerAddress)\<close>. After
  \<^verbatim>\<open>_sendAddress\<close> the source calls the handler without returning its result.
\<close>

definition write_reg :: "i2c_h \<Rightarrow> u8 \<Rightarrow> u8 \<Rightarrow> i2c \<Rightarrow> (u8 \<times> i2c) option" where
  "write_reg h address registerAddress s = do {
     (returnStatus, s) \<leftarrow> start h s;
     if returnStatus \<noteq> 0 then Some (start_error_handler returnStatus START_MODE, s) else do {
     (returnStatus, s) \<leftarrow> sendAddress h (SLA_W h address) s;
     let _ = (if returnStatus \<noteq> 0 then send_addr_error_handler returnStatus TRANSMIT_MODE else 0);
     (returnStatus, s) \<leftarrow> sendByte h registerAddress s;
     if returnStatus \<noteq> 0 then Some (send_error_handler returnStatus, s) else do {
     (returnStatus, s) \<leftarrow> stop s;
     if returnStatus \<noteq> 0 then Some (stop_error_handler returnStatus, s) else
     Some (returnStatus, s) }}}"

text \<open>\<^verbatim>\<open>write(int address, int registerAddress)\<close>: both arguments cast to \<^verbatim>\<open>uint8_t\<close>.\<close>

definition write_reg_int :: "i2c_h \<Rightarrow> int \<Rightarrow> int \<Rightarrow> i2c \<Rightarrow> (u8 \<times> i2c) option" where
  "write_reg_int h address registerAddress s =
     write_reg h (word_of_int address) (word_of_int registerAddress) s"

text \<open>\<^verbatim>\<open>write(uint8_t address, uint8_t registerAddress, uint8_t data)\<close>\<close>

definition write_byte :: "i2c_h \<Rightarrow> u8 \<Rightarrow> u8 \<Rightarrow> u8 \<Rightarrow> i2c \<Rightarrow> (u8 \<times> i2c) option" where
  "write_byte h address registerAddress dataByte s = do {
     (returnStatus, s) \<leftarrow> start h s;
     if returnStatus \<noteq> 0 then Some (start_error_handler returnStatus START_MODE, s) else do {
     (returnStatus, s) \<leftarrow> sendAddress h (SLA_W h address) s;
     let _ = (if returnStatus \<noteq> 0 then send_addr_error_handler returnStatus TRANSMIT_MODE else 0);
     (returnStatus, s) \<leftarrow> sendByte h registerAddress s;
     if returnStatus \<noteq> 0 then Some (send_error_handler returnStatus, s) else do {
     (returnStatus, s) \<leftarrow> sendByte h dataByte s;
     if returnStatus \<noteq> 0 then Some (send_error_handler returnStatus, s) else do {
     (returnStatus, s) \<leftarrow> stop s;
     if returnStatus \<noteq> 0 then Some (stop_error_handler returnStatus, s) else
     Some (returnStatus, s) }}}}"

text \<open>\<^verbatim>\<open>write(int address, int registerAddress, int data)\<close>\<close>

definition write_byte_int :: "i2c_h \<Rightarrow> int \<Rightarrow> int \<Rightarrow> int \<Rightarrow> i2c \<Rightarrow> (u8 \<times> i2c) option" where
  "write_byte_int h address registerAddress dataByte s =
     write_byte h (word_of_int address) (word_of_int registerAddress) (word_of_int dataByte) s"

text \<open>
  The loop of the block writes:
  \<^verbatim>\<open>for (uint8_t i = 0; i < numberBytes; i++) { returnStatus = _sendByte(data[i]); if (returnStatus) return send_error_handler(returnStatus); }\<close>
\<close>

function send_loop ::
  "i2c_h \<Rightarrow> (nat \<Rightarrow> u8) \<Rightarrow> u8 \<Rightarrow> u8 \<Rightarrow> i2c \<Rightarrow> ((u8, unit) loop_exit \<times> i2c) option" where
  "send_loop h dataPtr numberBytes i s =
     (if i < numberBytes then
        (case sendByte h (dataPtr (unat i)) s of
           None \<Rightarrow> None
         | Some (returnStatus, s) \<Rightarrow>
             if returnStatus \<noteq> 0 then Some (Return (send_error_handler returnStatus), s)
             else send_loop h dataPtr numberBytes (i + 1) s)
      else Some (Finished (), s))"
  by pat_completeness auto
termination
proof (relation "measure (\<lambda>(h, dataPtr, numberBytes, i, s). unat numberBytes - unat i)", goal_cases)
  case 1
  show ?case by simp
next
  case (2 h dataPtr numberBytes i s x2 x y)
  then have "1 + i \<noteq> 0"
    by (metis eq_neg_iff_add_eq_0 verit_minus_simplify(4) word_order.extremum_strict)
  then have "unat (i + 1) = Suc (unat i)"
    using unatSuc [of i] by (simp add: add.commute)
  with 2 show ?case by (simp add: word_less_nat_alt)
qed

text \<open>\<^verbatim>\<open>write(uint8_t address, uint8_t registerAddress, const uint8_t *data, uint8_t numberBytes)\<close>\<close>

definition write_bytes ::
  "i2c_h \<Rightarrow> u8 \<Rightarrow> u8 \<Rightarrow> (nat \<Rightarrow> u8) \<Rightarrow> u8 \<Rightarrow> i2c \<Rightarrow> (u8 \<times> i2c) option" where
  "write_bytes h address registerAddress dataPtr numberBytes s = do {
     (returnStatus, s) \<leftarrow> start h s;
     if returnStatus \<noteq> 0 then Some (start_error_handler returnStatus START_MODE, s) else do {
     (returnStatus, s) \<leftarrow> sendAddress h (SLA_W h address) s;
     let _ = (if returnStatus \<noteq> 0 then send_addr_error_handler returnStatus TRANSMIT_MODE else 0);
     (returnStatus, s) \<leftarrow> sendByte h registerAddress s;
     if returnStatus \<noteq> 0 then Some (send_error_handler returnStatus, s) else do {
     (ex, s) \<leftarrow> send_loop h dataPtr numberBytes 0 s;
     case ex of
       Return rc \<Rightarrow> Some (rc, s)
     | Finished _ \<Rightarrow> do {
     (returnStatus, s) \<leftarrow> stop s;
     if returnStatus \<noteq> 0 then Some (stop_error_handler returnStatus, s) else
     Some (returnStatus, s) }}}}"

text \<open>
  \<^verbatim>\<open>write(uint8_t address, uint8_t registerAddress, const char *data)\<close>: the text is the
  bytes in front of the terminating NUL, and its length is truncated to \<^verbatim>\<open>uint8_t\<close>.
\<close>

definition strlen :: "u8 list \<Rightarrow> nat" where
  "strlen cs = length (takeWhile (\<lambda>c. c \<noteq> 0) cs)"

definition write_str :: "i2c_h \<Rightarrow> u8 \<Rightarrow> u8 \<Rightarrow> u8 list \<Rightarrow> i2c \<Rightarrow> (u8 \<times> i2c) option" where
  "write_str h address registerAddress cs s =
     (let bufferLength = (of_nat (strlen cs) :: u8)
      in write_bytes h address registerAddress (nth cs) bufferLength s)"




section \<open>Transaction sequencer: reads\<close>

text \<open>
  The receive loop of the reads into the internal buffer:
  \<^verbatim>\<open>for (uint8_t i = 0; i < numberBytes; i++) { if (i == nack) _receiveByte(0) else _receiveByte(1), returning receive_error_handler(returnStatus) on failure; data[i] = TWDR; bytesAvailable = i + 1; totalBytes = i + 1; }\<close>
\<close>

function recv_loop ::
  "i2c_h \<Rightarrow> u8 \<Rightarrow> u8 \<Rightarrow> u8 \<Rightarrow> i2c \<Rightarrow> ((u8, unit) loop_exit \<times> i2c) option" where
  "recv_loop h numberBytes nack i s =
     (if i < numberBytes then
        (case receiveByte h (if i = nack then 0 else 1) s of
           None \<Rightarrow> None
         | Some (returnStatus, s) \<Rightarrow>
             if returnStatus \<noteq> 0 then Some (Return (receive_error_handler returnStatus), s)
             else recv_loop h numberBytes nack (i + 1)
                    (s\<lparr>data := (data s)(unat i := TWDR s),
                       bytesAvailable := i + 1, totalBytes := i + 1\<rparr>))
      else Some (Finished (), s))"
  by pat_completeness auto
termination
proof (relation "measure (\<lambda>(h, numberBytes, nack, i, s). unat numberBytes - unat i)", goal_cases)
  case 1
  show ?case by simp
next
  case (2 h numberBytes nack i s x2 x y)
  then have "1 + i \<noteq> 0"
    by (metis eq_neg_iff_add_eq_0 verit_minus_simplify(4) word_order.extremum_strict)
  then have "unat (i + 1) = Suc (unat i)"
    using unatSuc [of i] by (simp add: add.commute)
  with 2 show ?case by (simp add: word_less_nat_alt)
qed

text \<open>
  The receive loop of the reads into a caller's buffer, \<^verbatim>\<open>dataBuffer[i] = TWDR\<close>; the
  counter, the count and \<^verbatim>\<open>nack\<close> are \<^verbatim>\<open>uint8_t\<close> or \<^verbatim>\<open>uint16_t\<close> with the overload.
\<close>

function recv_into_loop ::
  "i2c_h \<Rightarrow> 'a::len word \<Rightarrow> 'a word \<Rightarrow> 'a word \<Rightarrow> (nat \<Rightarrow> u8) \<Rightarrow> i2c
     \<Rightarrow> ((u8, unit) loop_exit \<times> (nat \<Rightarrow> u8) \<times> i2c) option" where
  "recv_into_loop h numberBytes nack i dataBuffer s =
     (if i < numberBytes then
        (case receiveByte h (if i = nack then 0 else 1) s of
           None \<Rightarrow> None
         | Some (returnStatus, s) \<Rightarrow>
             if returnStatus \<noteq> 0
             then Some (Return (receive_error_handler returnStatus), dataBuffer, s)
             else recv_into_loop h numberBytes nack (i + 1) (dataBuffer(unat i := TWDR s)) s)
      else Some (Finished (), dataBuffer, s))"
  by pat_completeness auto
termination
proof (relation "measure (\<lambda>(h, numberBytes, nack, i, dataBuffer, s). unat numberBytes - unat i)",
    goal_cases)
  case 1
  show ?case by simp
next
  case (2 h numberBytes nack i dataBuffer s x2 x y)
  then have "1 + i \<noteq> 0"
    by (metis eq_neg_iff_add_eq_0 verit_minus_simplify(4) word_order.extremum_strict)
  then have "unat (i + 1) = Suc (unat i)"
    using unatSuc [of i] by (simp add: add.commute)
  with 2 show ?case by (simp add: word_less_nat_alt)
qed

text \<open>\<^verbatim>\<open>read(uint8_t address, uint8_t numberBytes)\<close>, into the internal buffer.\<close>

definition read_n :: "i2c_h \<Rightarrow> u8 \<Rightarrow> u8 \<Rightarrow> i2c \<Rightarrow> (u8 \<times> i2c) option" where
  "read_n h address numberBytes s =
     (let s = s\<lparr>bytesAvailable := 0, bufferIndex := 0\<rparr>;
          numberBytes = (of_nat (min (unat numberBytes) (MAX_BUFFER_SIZE h)) :: u8);
          numberBytes = (if numberBytes = 0 then numberBytes + 1 else numberBytes);
          nack = numberBytes - 1
      in do {
     (returnStatus, s) \<leftarrow> start h s;
     if returnStatus \<noteq> 0 then Some (start_error_handler returnStatus START_MODE, s) else do {
     (returnStatus, s) \<leftarrow> sendAddress h (SLA_R h address) s;
     if returnStatus \<noteq> 0 then Some (send_addr_error_handler returnStatus RECEIVER_MODE, s) else do {
     (ex, s) \<leftarrow> recv_loop h numberBytes nack 0 s;
     case ex of
       Return rc \<Rightarrow> Some (rc, s)
     | Finished _ \<Rightarrow> do {
     (returnStatus, s) \<leftarrow> stop s;
     if returnStatus \<noteq> 0 then Some (stop_error_handler returnStatus, s) else
     Some (returnStatus, s) }}}})"

text \<open>\<^verbatim>\<open>read(int address, int numberBytes)\<close>\<close>

definition read_n_int :: "i2c_h \<Rightarrow> int \<Rightarrow> int \<Rightarrow> i2c \<Rightarrow> (u8 \<times> i2c) option" where
  "read_n_int h address numberBytes s =
     read_n h (word_of_int address) (word_of_int numberBytes) s"

text \<open>
  \<^verbatim>\<open>read(uint8_t address, uint8_t registerAddress, uint8_t numberBytes)\<close>, into the
  internal buffer. A failure of the register byte goes to the address handler in
  receiver mode, as the source has it.
\<close>

definition read_reg :: "i2c_h \<Rightarrow> u8 \<Rightarrow> u8 \<Rightarrow> u8 \<Rightarrow> i2c \<Rightarrow> (u8 \<times> i2c) option" where
  "read_reg h address registerAddress numberBytes s =
     (let s = s\<lparr>bytesAvailable := 0, bufferIndex := 0\<rparr>;
          numberBytes = (of_nat (min (unat numberBytes) (MAX_BUFFER_SIZE h)) :: u8);
          numberBytes = (if numberBytes = 0 then numberBytes + 1 else numberBytes);
          nack = numberBytes - 1
      in do {
     (returnStatus, s) \<leftarrow> start h s;
     if returnStatus \<noteq> 0 then Some (start_error_handler returnStatus START_MODE, s) else do {
     (returnStatus, s) \<leftarrow> sendAddress h (SLA_W h address) s;
     if returnStatus \<noteq> 0 then Some (send_addr_error_handler returnStatus TRANSMIT_MODE, s) else do {
     (returnStatus, s) \<leftarrow> sendByte h registerAddress s;
     if returnStatus \<noteq> 0 then Some (send_addr_error_handler returnStatus RECEIVER_MODE, s) else do {
     (returnStatus, s) \<leftarrow> start h s;
     if returnStatus \<noteq> 0 then Some (start_error_handler returnStatus REPEATED_START_MODE, s) else do {
     (returnStatus, s) \<leftarrow> sendAddress h (SLA_R h address) s;
     if returnStatus \<noteq> 0 then Some (send_addr_error_handler returnStatus RECEIVER_MODE, s) else do {
     (ex, s) \<leftarrow> recv_loop h numberBytes nack 0 s;
     case ex of
       Return rc \<Rightarrow> Some (rc, s)
     | Finished _ \<Rightarrow> do {
     (returnStatus, s) \<leftarrow> stop s;
     if returnStatus \<noteq> 0 then Some (stop_error_handler returnStatus, s) else
     Some (returnStatus, s) }}}}}}})"

text \<open>\<^verbatim>\<open>read(int address, int registerAddress, int numberBytes)\<close>\<close>

definition read_reg_int :: "i2c_h \<Rightarrow> int \<Rightarrow> int \<Rightarrow> int \<Rightarrow> i2c \<Rightarrow> (u8 \<times> i2c) option" where
  "read_reg_int h address registerAddress numberBytes s =
     read_reg h (word_of_int address) (word_of_int registerAddress) (word_of_int numberBytes) s"

text \<open>
  \<^verbatim>\<open>read(uint8_t address, uint8_t numberBytes, uint8_t *dataBuffer)\<close> and
  \<^verbatim>\<open>read(uint8_t address, uint16_t numberBytes, uint8_t *dataBuffer)\<close>: one text in the
  source but for the width of the count. The result carries the caller's buffer.
\<close>

definition read_into ::
  "i2c_h \<Rightarrow> u8 \<Rightarrow> 'a::len word \<Rightarrow> (nat \<Rightarrow> u8) \<Rightarrow> i2c \<Rightarrow> (u8 \<times> (nat \<Rightarrow> u8) \<times> i2c) option" where
  "read_into h address numberBytes dataBuffer s =
     (let numberBytes = (if numberBytes = 0 then numberBytes + 1 else numberBytes);
          nack = numberBytes - 1
      in do {
     (returnStatus, s) \<leftarrow> start h s;
     if returnStatus \<noteq> 0 then Some (start_error_handler returnStatus START_MODE, dataBuffer, s) else do {
     (returnStatus, s) \<leftarrow> sendAddress h (SLA_R h address) s;
     if returnStatus \<noteq> 0 then Some (send_addr_error_handler returnStatus RECEIVER_MODE, dataBuffer, s) else do {
     (ex, dataBuffer, s) \<leftarrow> recv_into_loop h numberBytes nack 0 dataBuffer s;
     case ex of
       Return rc \<Rightarrow> Some (rc, dataBuffer, s)
     | Finished _ \<Rightarrow> do {
     (returnStatus, s) \<leftarrow> stop s;
     if returnStatus \<noteq> 0 then Some (stop_error_handler returnStatus, dataBuffer, s) else
     Some (returnStatus, dataBuffer, s) }}}})"

definition read_into_u8 ::
  "i2c_h \<Rightarrow> u8 \<Rightarrow> u8 \<Rightarrow> (nat \<Rightarrow> u8) \<Rightarrow> i2c \<Rightarrow> (u8 \<times> (nat \<Rightarrow> u8) \<times> i2c) option" where
  "read_into_u8 = read_into"

definition read_into_u16 ::
  "i2c_h \<Rightarrow> u8 \<Rightarrow> u16 \<Rightarrow> (nat \<Rightarrow> u8) \<Rightarrow> i2c \<Rightarrow> (u8 \<times> (nat \<Rightarrow> u8) \<times> i2c) option" where
  "read_into_u16 = read_into"

text \<open>
  \<^verbatim>\<open>read(uint8_t address, uint8_t registerAddress, uint8_t numberBytes, uint8_t *dataBuffer)\<close>
  and the same with \<^verbatim>\<open>uint16_t numberBytes\<close>.
\<close>

definition read_reg_into ::
  "i2c_h \<Rightarrow> u8 \<Rightarrow> u8 \<Rightarrow> 'a::len word \<Rightarrow> (nat \<Rightarrow> u8) \<Rightarrow> i2c
     \<Rightarrow> (u8 \<times> (nat \<Rightarrow> u8) \<times> i2c) option" where
  "read_reg_into h address registerAddress numberBytes dataBuffer s =
     (let numberBytes = (if numberBytes = 0 then numberBytes + 1 else numberBytes);
          nack = numberBytes - 1
      in do {
     (returnStatus, s) \<leftarrow> start h s;
     if returnStatus \<noteq> 0 then Some (start_error_handler returnStatus START_MODE, dataBuffer, s) else do {
     (returnStatus, s) \<leftarrow> sendAddress h (SLA_W h address) s;
     if returnStatus \<noteq> 0 then Some (send_addr_error_handler returnStatus TRANSMIT_MODE, dataBuffer, s) else do {
     (returnStatus, s) \<leftarrow> sendByte h registerAddress s;
     if returnStatus \<noteq> 0 then Some (send_addr_error_handler returnStatus RECEIVER_MODE, dataBuffer, s) else do {
     (returnStatus, s) \<leftarrow> start h s;
     if returnStatus \<noteq> 0 then Some (start_error_handler returnStatus REPEATED_START_MODE, dataBuffer, s) else do {
     (returnStatus, s) \<leftarrow> sendAddress h (SLA_R h address) s;
     if returnStatus \<noteq> 0 then Some (send_addr_error_handler returnStatus RECEIVER_MODE, dataBuffer, s) else do {
     (ex, dataBuffer, s) \<leftarrow> recv_into_loop h numberBytes nack 0 dataBuffer s;
     case ex of
       Return rc \<Rightarrow> Some (rc, dataBuffer, s)
     | Finished _ \<Rightarrow> do {
     (returnStatus, s) \<leftarrow> stop s;
     if returnStatus \<noteq> 0 then Some (stop_error_handler returnStatus, dataBuffer, s) else
     Some (returnStatus, dataBuffer, s) }}}}}}})"

definition read_reg_into_u8 ::
  "i2c_h \<Rightarrow> u8 \<Rightarrow> u8 \<Rightarrow> u8 \<Rightarrow> (nat \<Rightarrow> u8) \<Rightarrow> i2c \<Rightarrow> (u8 \<times> (nat \<Rightarrow> u8) \<times> i2c) option" where
  "read_reg_into_u8 = read_reg_into"

definition read_reg_into_u16 ::
  "i2c_h \<Rightarrow> u8 \<Rightarrow> u8 \<Rightarrow> u16 \<Rightarrow> (nat \<Rightarrow> u8) \<Rightarrow> i2c \<Rightarrow> (u8 \<times> (nat \<Rightarrow> u8) \<times> i2c) option" where
  "read_reg_into_u16 = read_reg_into"

section \<open>Transaction sequencer: 16-bit register addresses\<close>

text \<open>\<^verbatim>\<open>write16(uint8_t address, uint16_t registerAddress)\<close>\<close>

definition write16_reg :: "i2c_h \<Rightarrow> u8 \<Rightarrow> u16 \<Rightarrow> i2c \<Rightarrow> (u8 \<times> i2c) option" where
  "write16_reg h address registerAddress s = do {
     (returnStatus, s) \<leftarrow> start h s;
     if returnStatus \<noteq> 0 then Some (start_error_handler returnStatus START_MODE, s) else do {
     (returnStatus, s) \<leftarrow> sendAddress h (SLA_W h address) s;
     if returnStatus \<noteq> 0 then Some (send_addr_error_handler returnStatus TRANSMIT_MODE, s) else do {
     (returnStatus, s) \<leftarrow> sendByte h (ucast (drop_bit 8 registerAddress)) s;
     if returnStatus \<noteq> 0 then Some (send_error_handler returnStatus, s) else do {
     (returnStatus, s) \<leftarrow> sendByte h (ucast (registerAddress AND 0xFF)) s;
     if returnStatus \<noteq> 0 then Some (send_error_handler returnStatus, s) else do {
     (returnStatus, s) \<leftarrow> stop s;
     if returnStatus \<noteq> 0 then Some (stop_error_handler returnStatus, s) else
     Some (returnStatus, s) }}}}}"


text \<open>
  \<^verbatim>\<open>write16(uint8_t address, uint16_t registerAddress, const uint8_t *data, uint8_t numberBytes)\<close>.
  A failure of the write address goes to the address handler in receiver mode, as the
  source has it.
\<close>

definition write16_bytes ::
  "i2c_h \<Rightarrow> u8 \<Rightarrow> u16 \<Rightarrow> (nat \<Rightarrow> u8) \<Rightarrow> u8 \<Rightarrow> i2c \<Rightarrow> (u8 \<times> i2c) option" where
  "write16_bytes h address registerAddress dataPtr numberBytes s = do {
     (returnStatus, s) \<leftarrow> start h s;
     if returnStatus \<noteq> 0 then Some (start_error_handler returnStatus START_MODE, s) else do {
     (returnStatus, s) \<leftarrow> sendAddress h (SLA_W h address) s;
     if returnStatus \<noteq> 0 then Some (send_addr_error_handler returnStatus RECEIVER_MODE, s) else do {
     (returnStatus, s) \<leftarrow> sendByte h (ucast (drop_bit 8 registerAddress)) s;
     if returnStatus \<noteq> 0 then Some (send_error_handler returnStatus, s) else do {
     (returnStatus, s) \<leftarrow> sendByte h (ucast (registerAddress AND 0xFF)) s;
     if returnStatus \<noteq> 0 then Some (send_error_handler returnStatus, s) else do {
     (ex, s) \<leftarrow> send_loop h dataPtr numberBytes 0 s;
     case ex of
       Return rc \<Rightarrow> Some (rc, s)
     | Finished _ \<Rightarrow> do {
     (returnStatus, s) \<leftarrow> stop s;
     if returnStatus \<noteq> 0 then Some (stop_error_handler returnStatus, s) else
     Some (returnStatus, s) }}}}}}"

text \<open>\<^verbatim>\<open>write16(uint8_t address, uint16_t registerAddress, const char *data)\<close>\<close>

definition write16_str :: "i2c_h \<Rightarrow> u8 \<Rightarrow> u16 \<Rightarrow> u8 list \<Rightarrow> i2c \<Rightarrow> (u8 \<times> i2c) option" where
  "write16_str h address registerAddress cs s =
     (let bufferLength = (of_nat (strlen cs) :: u8)
      in write16_bytes h address registerAddress (nth cs) bufferLength s)"




text \<open>
  \<^verbatim>\<open>read16(uint8_t address, uint16_t registerAddress, uint8_t numberBytes)\<close>, into the
  internal buffer.
\<close>

definition read16_reg :: "i2c_h \<Rightarrow> u8 \<Rightarrow> u16 \<Rightarrow> u8 \<Rightarrow> i2c \<Rightarrow> (u8 \<times> i2c) option" where
  "read16_reg h address registerAddress numberBytes s =
     (let s = s\<lparr>bytesAvailable := 0, bufferIndex := 0\<rparr>;
          numberBytes = (of_nat (min (unat numberBytes) (MAX_BUFFER_SIZE h)) :: u8);
          numberBytes = (if numberBytes = 0 then numberBytes + 1 else numberBytes);
          nack = numberBytes - 1
      in do {
     (returnStatus, s) \<leftarrow> start h s;
     if returnStatus \<noteq> 0 then Some (start_error_handler returnStatus START_MODE, s) else do {
     (returnStatus, s) \<leftarrow> sendAddress h (SLA_W h address) s;
     if returnStatus \<noteq> 0 then Some (send_addr_error_handler returnStatus TRANSMIT_MODE, s) else do {
     (returnStatus, s) \<leftarrow> sendByte h (ucast (drop_bit 8 registerAddress)) s;
     if returnStatus \<noteq> 0 then Some (send_error_handler returnStatus, s) else do {
     (returnStatus, s) \<leftarrow> sendByte h (ucast (registerAddress AND 0xFF)) s;
     if returnStatus \<noteq> 0 then Some (send_error_handler returnStatus, s) else do {
     (returnStatus, s) \<leftarrow> start h s;
     if returnStatus \<noteq> 0 then Some (start_error_handler returnStatus REPEATED_START_MODE, s) else do {
     (returnStatus, s) \<leftarrow> sendAddress h (SLA_R h address) s;
     if returnStatus \<noteq> 0 then Some (send_addr_error_handler returnStatus RECEIVER_MODE, s) else do {
     (ex, s) \<leftarrow> recv_loop h numberBytes nack 0 s;
     case ex of
       Return rc \<Rightarrow> Some (rc, s)
     | Finished _ \<Rightarrow> do {
     (returnStatus, s) \<leftarrow> stop s;
     if returnStatus \<noteq> 0 then Some (stop_error_handler returnStatus, s) else
     Some (returnStatus, s) }}}}}}}})"

text \<open>
  \<^verbatim>\<open>read16(uint8_t address, uint16_t registerAddress, uint8_t numberBytes, uint8_t *dataBuffer)\<close>.
  A failure of the second start goes to the start handler in \<^verbatim>\<open>START_MODE\<close>, as the
  source has it.
\<close>

definition read16_reg_into ::
  "i2c_h \<Rightarrow> u8 \<Rightarrow> u16 \<Rightarrow> u8 \<Rightarrow> (nat \<Rightarrow> u8) \<Rightarrow> i2c \<Rightarrow> (u8 \<times> (nat \<Rightarrow> u8) \<times> i2c) option" where
  "read16_reg_into h address registerAddress numberBytes dataBuffer s =
     (let numberBytes = (if numberBytes = 0 then numberBytes + 1 else numberBytes);
          nack = numberBytes - 1
      in do {
     (returnStatus, s) \<leftarrow> start h s;
     if returnStatus \<noteq> 0 then Some (start_error_handler returnStatus START_MODE, dataBuffer, s) else do {
     (returnStatus, s) \<leftarrow> sendAddress h (SLA_W h address) s;
     if returnStatus \<noteq> 0 then Some (send_addr_error_handler returnStatus TRANSMIT_MODE, dataBuffer, s) else do {
     (returnStatus, s) \<leftarrow> sendByte h (ucast (drop_bit 8 registerAddress)) s;
     if returnStatus \<noteq> 0 then Some (send_error_handler returnStatus, dataBuffer, s) else do {
     (returnStatus, s) \<leftarrow> sendByte h (ucast (registerAddress AND 0xFF)) s;
     if returnStatus \<noteq> 0 then Some (send_error_handler returnStatus, dataBuffer, s) else do {
     (returnStatus, s) \<leftarrow> start h s;
     if returnStatus \<noteq> 0 then Some (start_error_handler returnStatus START_MODE, dataBuffer, s) else do {
     (returnStatus, s) \<leftarrow> sendAddress h (SLA_R h address) s;
     if returnStatus \<noteq> 0 then Some (send_addr_error_handler returnStatus RECEIVER_MODE, dataBuffer, s) else do {
     (ex, dataBuffer, s) \<leftarrow> recv_into_loop h numberBytes nack 0 dataBuffer s;
     case ex of
       Return rc \<Rightarrow> Some (rc, dataBuffer, s)
     | Finished _ \<Rightarrow> do {
     (returnStatus, s) \<leftarrow> stop s;
     if returnStatus \<noteq> 0 then Some (stop_error_handler returnStatus, dataBuffer, s) else
     Some (returnStatus, dataBuffer, s) }}}}}}}})"

section \<open>Bus scan\<close>

text \<open>
  The loop of \<^verbatim>\<open>scan\<close> over the addresses \<open>sa\<close> (the source's \<^verbatim>\<open>s\<close>) from 0 to 0x7F.
  \<open>Return ()\<close> is the early \<^verbatim>\<open>return\<close> on a bus problem, which restores the timeout
  itself; \<open>Finished n\<close> hands the number of devices found to the code after the loop.
\<close>

function scan_loop ::
  "i2c_h \<Rightarrow> u16 \<Rightarrow> u8 \<Rightarrow> u8 \<Rightarrow> i2c \<Rightarrow> ((unit, u8) loop_exit \<times> i2c) option" where
  "scan_loop h tempTime totalDevicesFound sa s =
     (if sa \<le> 0x7F then
        (case start h s of
           None \<Rightarrow> None
         | Some (returnStatus, s) \<Rightarrow>
            (case (if returnStatus = 0 then sendAddress h (SLA_W h sa) s
                   else Some (returnStatus, s)) of
               None \<Rightarrow> None
             | Some (returnStatus, s) \<Rightarrow>
                 if returnStatus \<noteq> 0 \<and> returnStatus = 1
                 then Some (Return (),
                            s\<lparr>serial := serial s @ [BusProblem], timeOutDelay := tempTime\<rparr>)
                 else
                   let (totalDevicesFound, s) =
                         (if returnStatus \<noteq> 0 then (totalDevicesFound, s)
                          else (totalDevicesFound + 1,
                                s\<lparr>serial := serial s @ [FoundDevice sa]\<rparr>))
                   in (case stop s of
                         None \<Rightarrow> None
                       | Some (_, s) \<Rightarrow> scan_loop h tempTime totalDevicesFound (sa + 1) s)))
      else Some (Finished totalDevicesFound, s))"
  by pat_completeness auto
termination
proof (relation "measure (\<lambda>(h, tempTime, totalDevicesFound, sa, s). 128 - unat sa)", goal_cases)
  case 1
  show ?case by simp
next
  case (2 h tempTime totalDevicesFound sa s)
  then show ?case by (simp add: word_le_nat_alt unat_word_ariths)
qed

definition scan :: "i2c_h \<Rightarrow> i2c \<Rightarrow> i2c option" where
  "scan h s =
     (let tempTime = timeOutDelay s;
          s = timeOut 80 s;
          s = s\<lparr>serial := serial s @ [Scanning, Blank]\<rparr>
      in do {
     (ex, s) \<leftarrow> scan_loop h tempTime 0 0 s;
     case ex of
       Return _ \<Rightarrow> Some s
     | Finished totalDevicesFound \<Rightarrow>
         let s = (if totalDevicesFound = 0 then s\<lparr>serial := serial s @ [NoDevicesFound]\<rparr> else s)
         in Some (s\<lparr>timeOutDelay := tempTime\<rparr>) })"

section \<open>Notions the specification speaks of\<close>

text \<open>
  What a call of a primitive gives back, as far as the bus sees it: the return code and
  the commands issued so far; and the commands that the call itself issued, its own
  command first.
\<close>

definition outcome :: "(u8 \<times> i2c) option \<Rightarrow> (u8 \<times> twi_command list) option" where
  "outcome r = map_option (\<lambda>(rc, s'). (rc, bus s')) r"

definition issued :: "i2c \<Rightarrow> i2c \<Rightarrow> twi_command list" where
  "issued s s' = drop (length (bus s)) (bus s')"


text \<open>The data bytes put on the bus, in order, and the number of bytes clocked in.\<close>

fun sent_bytes :: "twi_command list \<Rightarrow> u8 list" where
  "sent_bytes [] = []"
| "sent_bytes (IssueByte b # cs) = b # sent_bytes cs"
| "sent_bytes (_ # cs) = sent_bytes cs"

fun clocked_in :: "twi_command list \<Rightarrow> nat" where
  "clocked_in [] = 0"
| "clocked_in (IssueReceive _ # cs) = Suc (clocked_in cs)"
| "clocked_in (_ # cs) = clocked_in cs"


text \<open>
  The number of bytes that the specification promises for a requested count \<open>n\<close>:
  a request for 0 bytes is a request for one, and the capacity caps the rest.
\<close>

definition read_count :: "i2c_h \<Rightarrow> nat \<Rightarrow> nat" where
  "read_count h n = min (max n 1) (MAX_BUFFER_SIZE h)"

text \<open>
  The count the reads into the internal buffer settle on:
  \<^verbatim>\<open>numberBytes = min(numberBytes, MAX_BUFFER_SIZE); if (numberBytes == 0) numberBytes++;\<close>
\<close>

definition capped :: "i2c_h \<Rightarrow> u8 \<Rightarrow> u8" where
  "capped h n = (let nb = (of_nat (min (unat n) (MAX_BUFFER_SIZE h)) :: u8)
                 in if nb = 0 then nb + 1 else nb)"




text \<open>
  A peripheral that lets a transaction through: the phases of the transaction, and what
  it means that the answers from the \<open>k\<close>-th wait on complete each phase with a status
  that the primitive takes for success (a receive with the status of a byte that was, or
  was not, acknowledged, as asked, and not with arbitration lost).
\<close>

datatype phase = PStart | PAddr | PByte | PRecv bool | PStop

definition completes_with :: "(u8 \<Rightarrow> bool) \<Rightarrow> twi_response \<Rightarrow> bool" where
  "completes_with P r = (case r of Completed st d \<Rightarrow> P st | Stalled \<Rightarrow> False)"

fun accepts :: "i2c_h \<Rightarrow> phase \<Rightarrow> twi_response \<Rightarrow> bool" where
  "accepts h PStart r = completes_with (\<lambda>st. st = START h \<or> st = REPEATED_START h) r"
| "accepts h PAddr r = completes_with (\<lambda>st. st = MT_SLA_ACK h \<or> st = MR_SLA_ACK h) r"
| "accepts h PByte r = completes_with (\<lambda>st. st = MT_DATA_ACK h) r"
| "accepts h (PRecv ack) r =
     completes_with (\<lambda>st. st \<noteq> LOST_ARBTRTN h \<and> st = (if ack then MR_DATA_ACK h else MR_DATA_NACK h)) r"
| "accepts h PStop r = completes_with (\<lambda>st. True) r"

fun answers :: "i2c_h \<Rightarrow> phase list \<Rightarrow> (nat \<Rightarrow> twi_response) \<Rightarrow> nat \<Rightarrow> bool" where
  "answers h [] tw k = True"
| "answers h (ph # phs) tw k = (accepts h ph (tw k) \<and> answers h phs tw (Suc k))"

text \<open>
  The phases of a write of \<open>k\<close> data bytes (register address and payload), of a read of
  \<open>c\<close> bytes, all acknowledged but the last, and of a read of \<open>c\<close> bytes from a register
  address of \<open>k\<close> bytes.
\<close>

definition recv_phases :: "nat \<Rightarrow> phase list" where
  "recv_phases c = map (\<lambda>j. PRecv (Suc j \<noteq> c)) [0..<c]"

definition write_phases :: "nat \<Rightarrow> phase list" where
  "write_phases k = [PStart, PAddr] @ replicate k PByte @ [PStop]"

definition read_phases :: "nat \<Rightarrow> phase list" where
  "read_phases c = [PStart, PAddr] @ recv_phases c @ [PStop]"

definition reg_read_phases :: "nat \<Rightarrow> nat \<Rightarrow> phase list" where
  "reg_read_phases k c =
     [PStart, PAddr] @ replicate k PByte @ [PStart, PAddr] @ recv_phases c @ [PStop]"

text \<open>A controller with a 100 ms timeout in front of a peripheral that gives these answers.\<close>

definition bus_answering :: "twi_response list \<Rightarrow> i2c" where
  "bus_answering rs = timeOut 100 (power_on (script rs))"


text \<open>
  A header with a two byte buffer, and peripherals that acknowledge a whole read of two
  bytes (0x11, then 0x22) without register, with an 8-bit and with a 16-bit register
  address, and a read of one byte.
\<close>

definition two_byte_buffer :: i2c_h where
  "two_byte_buffer = avr\<lparr>MAX_BUFFER_SIZE := 2\<rparr>"

definition two_bytes_read :: i2c where
  "two_bytes_read = timeOut 100 (power_on (script
     [Completed 0x08 0, Completed 0x40 0, Completed 0x50 0x11, Completed 0x58 0x22,
      Completed 0xF8 0]))"

definition two_bytes_read_reg :: i2c where
  "two_bytes_read_reg = timeOut 100 (power_on (script
     [Completed 0x08 0, Completed 0x18 0, Completed 0x28 0, Completed 0x10 0, Completed 0x40 0,
      Completed 0x50 0x11, Completed 0x58 0x22, Completed 0xF8 0]))"

definition two_bytes_read16 :: i2c where
  "two_bytes_read16 = timeOut 100 (power_on (script
     [Completed 0x08 0, Completed 0x18 0, Completed 0x28 0, Completed 0x28 0, Completed 0x10 0,
      Completed 0x40 0, Completed 0x50 0x11, Completed 0x58 0x22, Completed 0xF8 0]))"

definition one_byte_read :: i2c where
  "one_byte_read = timeOut 100 (power_on (script
     [Completed 0x08 0, Completed 0x40 0, Completed 0x58 0x33, Completed 0xF8 0]))"

text \<open>A peripheral that acknowledges a read of four bytes.\<close>

definition four_bytes_read :: i2c where
  "four_bytes_read = timeOut 100 (power_on (script
     [Completed 0x08 0, Completed 0x40 0, Completed 0x50 0x01, Completed 0x50 0x02,
      Completed 0x50 0x03, Completed 0x58 0x04, Completed 0xF8 0]))"

text \<open>A controller with a 100 ms timeout on a bus where nothing ever completes.\<close>

definition stalled_bus :: i2c where
  "stalled_bus = timeOut 100 (power_on (script [Stalled, Stalled]))"

section \<open>Facts about the primitives\<close>

lemmas prim_defs = poll_def issue_def lockUp_def
lemmas prim_splits = Option.bind_splits twi_response.splits if_splits poll_result.splits prod.splits
lemmas world_defs = avr_def timeOut_def power_on_def script_def

lemma sent_bytes_append: "sent_bytes (xs @ ys) = sent_bytes xs @ sent_bytes ys"
  by (induction xs rule: sent_bytes.induct) simp_all

lemma clocked_in_append: "clocked_in (xs @ ys) = clocked_in xs + clocked_in ys"
  by (induction xs rule: clocked_in.induct) simp_all

lemma stop_frame:
  "stop s = Some (rc, s') \<Longrightarrow>
     bytesAvailable s' = bytesAvailable s \<and> totalBytes s' = totalBytes s \<and>
     timeOutDelay s' = timeOutDelay s \<and> twi s' = twi s \<and>
     sent_bytes (bus s') = sent_bytes (bus s) \<and> clocked_in (bus s') = clocked_in (bus s)"
  by (auto simp: stop_def prim_defs sent_bytes_append clocked_in_append split: prim_splits)

lemma start_frame:
  "start h s = Some (rc, s') \<Longrightarrow>
     bytesAvailable s' = bytesAvailable s \<and> totalBytes s' = totalBytes s \<and>
     timeOutDelay s' = timeOutDelay s \<and> twi s' = twi s \<and>
     sent_bytes (bus s') = sent_bytes (bus s) \<and> clocked_in (bus s') = clocked_in (bus s)"
  by (auto simp: start_def prim_defs sent_bytes_append clocked_in_append split: prim_splits)

lemma sendAddress_frame:
  "sendAddress h a s = Some (rc, s') \<Longrightarrow>
     bytesAvailable s' = bytesAvailable s \<and> totalBytes s' = totalBytes s \<and>
     timeOutDelay s' = timeOutDelay s \<and> twi s' = twi s \<and>
     sent_bytes (bus s') = sent_bytes (bus s) \<and> clocked_in (bus s') = clocked_in (bus s)"
  by (auto simp: sendAddress_def prim_defs sent_bytes_append clocked_in_append
      split: prim_splits dest!: stop_frame)

lemma sendByte_frame:
  "sendByte h b s = Some (rc, s') \<Longrightarrow>
     bytesAvailable s' = bytesAvailable s \<and> totalBytes s' = totalBytes s \<and>
     timeOutDelay s' = timeOutDelay s \<and> twi s' = twi s \<and>
     sent_bytes (bus s') = sent_bytes (bus s) @ [b] \<and> clocked_in (bus s') = clocked_in (bus s)"
  by (auto simp: sendByte_def prim_defs sent_bytes_append clocked_in_append
      split: prim_splits dest!: stop_frame)

lemma receiveByte_frame:
  "receiveByte h ack s = Some (rc, s') \<Longrightarrow>
     bytesAvailable s' = bytesAvailable s \<and> totalBytes s' = totalBytes s \<and>
     timeOutDelay s' = timeOutDelay s \<and> twi s' = twi s \<and>
     sent_bytes (bus s') = sent_bytes (bus s) \<and> clocked_in (bus s') = Suc (clocked_in (bus s))"
  by (auto simp: receiveByte_def prim_defs sent_bytes_append clocked_in_append Let_def
      split: prim_splits)

lemma stop_returns: "timeOutDelay s \<noteq> 0 \<Longrightarrow> \<exists>rc s'. stop s = Some (rc, s')"
  by (auto simp: stop_def prim_defs split: prim_splits)

lemma start_returns: "timeOutDelay s \<noteq> 0 \<Longrightarrow> \<exists>rc s'. start h s = Some (rc, s')"
  by (auto simp: start_def prim_defs split: prim_splits)

lemma sendAddress_returns: "timeOutDelay s \<noteq> 0 \<Longrightarrow> \<exists>rc s'. sendAddress h a s = Some (rc, s')"
  by (auto simp: sendAddress_def stop_def prim_defs split: prim_splits)

lemma stop_cases:
  "stop s = Some (rc, s') \<Longrightarrow>
     (rc = 0 \<and> bus s' = bus s @ [IssueStop]) \<or> (rc = 1 \<and> bus s' = bus s @ [IssueStop, Reset])"
  by (auto simp: stop_def prim_defs split: prim_splits)

lemma stop_exact:
  "twi s (waits s) = Stalled \<Longrightarrow> timeOutDelay s \<noteq> 0 \<Longrightarrow>
     outcome (stop s) = Some (1, bus s @ [IssueStop, Reset])"
  "twi s (waits s) = Completed st d \<Longrightarrow> outcome (stop s) = Some (0, bus s @ [IssueStop])"
  by (simp_all add: outcome_def stop_def prim_defs)

lemma start_exact:
  "twi s (waits s) = Stalled \<Longrightarrow> timeOutDelay s \<noteq> 0 \<Longrightarrow>
     outcome (start h s) = Some (1, bus s @ [IssueStart, Reset])"
  "twi s (waits s) = Completed st d \<Longrightarrow> st \<noteq> START h \<Longrightarrow> st \<noteq> REPEATED_START h \<Longrightarrow>
     outcome (start h s)
       = Some (st, bus s @ (if st = LOST_ARBTRTN h then [IssueStart, Reset] else [IssueStart]))"
  by (simp_all add: outcome_def start_def prim_defs)

lemma sendAddress_exact:
  "twi s (waits s) = Stalled \<Longrightarrow> timeOutDelay s \<noteq> 0 \<Longrightarrow>
     outcome (sendAddress h a s) = Some (1, bus s @ [IssueAddress a, Reset])"
  "twi s (waits s) = Completed st d \<Longrightarrow> st \<noteq> MT_SLA_ACK h \<Longrightarrow> st \<noteq> MR_SLA_ACK h \<Longrightarrow>
   st \<noteq> MT_SLA_NACK h \<Longrightarrow> st \<noteq> MR_SLA_NACK h \<Longrightarrow>
     outcome (sendAddress h a s) = Some (st, bus s @ [IssueAddress a, Reset])"
  "twi s (waits s) = Completed st d \<Longrightarrow> st \<noteq> MT_SLA_ACK h \<Longrightarrow> st \<noteq> MR_SLA_ACK h \<Longrightarrow>
   st = MT_SLA_NACK h \<or> st = MR_SLA_NACK h \<Longrightarrow> twi s (Suc (waits s)) = Completed st2 d2 \<Longrightarrow>
     outcome (sendAddress h a s) = Some (st, bus s @ [IssueAddress a, IssueStop])"
  "twi s (waits s) = Completed st d \<Longrightarrow> st \<noteq> MT_SLA_ACK h \<Longrightarrow> st \<noteq> MR_SLA_ACK h \<Longrightarrow>
   st = MT_SLA_NACK h \<or> st = MR_SLA_NACK h \<Longrightarrow> twi s (Suc (waits s)) = Stalled \<Longrightarrow>
   timeOutDelay s \<noteq> 0 \<Longrightarrow>
     outcome (sendAddress h a s) = Some (st, bus s @ [IssueAddress a, IssueStop, Reset])"
  by (auto simp: outcome_def sendAddress_def stop_def prim_defs)

lemma sendByte_exact:
  "twi s (waits s) = Stalled \<Longrightarrow> timeOutDelay s \<noteq> 0 \<Longrightarrow>
     outcome (sendByte h b s) = Some (1, bus s @ [IssueByte b, Reset])"
  "twi s (waits s) = Completed st d \<Longrightarrow> st \<noteq> MT_DATA_ACK h \<Longrightarrow> st \<noteq> MT_DATA_NACK h \<Longrightarrow>
     outcome (sendByte h b s) = Some (st, bus s @ [IssueByte b, Reset])"
  "twi s (waits s) = Completed st d \<Longrightarrow> st \<noteq> MT_DATA_ACK h \<Longrightarrow> st = MT_DATA_NACK h \<Longrightarrow>
   twi s (Suc (waits s)) = Completed st2 d2 \<Longrightarrow>
     outcome (sendByte h b s) = Some (st, bus s @ [IssueByte b, IssueStop])"
  "twi s (waits s) = Completed st d \<Longrightarrow> st \<noteq> MT_DATA_ACK h \<Longrightarrow> st = MT_DATA_NACK h \<Longrightarrow>
   twi s (Suc (waits s)) = Stalled \<Longrightarrow> timeOutDelay s \<noteq> 0 \<Longrightarrow>
     outcome (sendByte h b s) = Some (st, bus s @ [IssueByte b, IssueStop, Reset])"
  by (auto simp: outcome_def sendByte_def stop_def prim_defs)

lemma receiveByte_exact:
  "twi s (waits s) = Stalled \<Longrightarrow> timeOutDelay s \<noteq> 0 \<Longrightarrow>
     outcome (receiveByte h ack s) = Some (1, bus s @ [IssueReceive (ack \<noteq> 0), Reset])"
  "twi s (waits s) = Completed st d \<Longrightarrow> st = LOST_ARBTRTN h \<Longrightarrow>
     outcome (receiveByte h ack s) = Some (st, bus s @ [IssueReceive (ack \<noteq> 0), Reset])"
  "twi s (waits s) = Completed st d \<Longrightarrow> st \<noteq> LOST_ARBTRTN h \<Longrightarrow>
   st \<noteq> (if ack \<noteq> 0 then MR_DATA_ACK h else MR_DATA_NACK h) \<Longrightarrow>
     outcome (receiveByte h ack s) = Some (st, bus s @ [IssueReceive (ack \<noteq> 0)])"
  by (auto simp: outcome_def receiveByte_def prim_defs Let_def)

lemma stop_recovers:
  "stop s = Some (rc, s') \<Longrightarrow> rc \<noteq> 0 \<Longrightarrow> rc = 1 \<and> issued s s' = [IssueStop, Reset]"
  by (auto simp: stop_def prim_defs issued_def split: prim_splits)

lemma sendAddress_recovers:
  "sendAddress h a s = Some (rc, s') \<Longrightarrow> rc \<noteq> 0 \<Longrightarrow>
     issued s s' = [IssueAddress a, Reset] \<or> issued s s' = [IssueAddress a, IssueStop] \<or>
     issued s s' = [IssueAddress a, IssueStop, Reset]"
  by (auto simp: sendAddress_def stop_def prim_defs issued_def split: prim_splits)

lemma sendByte_recovers:
  "sendByte h b s = Some (rc, s') \<Longrightarrow> rc \<noteq> 0 \<Longrightarrow>
     issued s s' = [IssueByte b, Reset] \<or> issued s s' = [IssueByte b, IssueStop] \<or>
     issued s s' = [IssueByte b, IssueStop, Reset]"
  by (auto simp: sendByte_def stop_def prim_defs issued_def split: prim_splits)

lemma start_recovers:
  "start h s = Some (rc, s') \<Longrightarrow> rc \<noteq> 0 \<Longrightarrow>
     (if twi s (waits s) = Stalled \<or> (\<exists>d. twi s (waits s) = Completed (LOST_ARBTRTN h) d)
      then issued s s' = [IssueStart, Reset]
      else issued s s' = [IssueStart] \<and> (\<exists>d. twi s (waits s) = Completed rc d))"
  by (auto simp: start_def prim_defs issued_def split: prim_splits)

lemma receiveByte_recovers:
  "receiveByte h ack s = Some (rc, s') \<Longrightarrow> rc \<noteq> 0 \<Longrightarrow>
     (if twi s (waits s) = Stalled \<or> (\<exists>d. twi s (waits s) = Completed (LOST_ARBTRTN h) d)
      then issued s s' = [IssueReceive (ack \<noteq> 0), Reset]
      else issued s s' = [IssueReceive (ack \<noteq> 0)] \<and> (\<exists>d. twi s (waits s) = Completed rc d))"
  by (auto simp: receiveByte_def prim_defs issued_def Let_def split: prim_splits)

lemmas handler_defs = start_error_handler_def stop_error_handler_def receive_error_handler_def
  send_error_handler_def send_addr_error_handler_def START_MODE_def REPEATED_START_MODE_def
  TRANSMIT_MODE_def RECEIVER_MODE_def

lemma handlers_zero_iff:
  "start_error_handler rs m = 0 \<longleftrightarrow> rs = 0"
  "stop_error_handler rs = 0 \<longleftrightarrow> rs = 0"
  "receive_error_handler rs = 0 \<longleftrightarrow> rs = 0"
  "send_error_handler rs = 0 \<longleftrightarrow> rs = 0"
  "send_addr_error_handler rs m = 0 \<longleftrightarrow> rs = 0"
  by (auto simp: handler_defs)

lemma word_succ_unat: "i < (n::'a::len word) \<Longrightarrow> unat (i + 1) = Suc (unat i)"
proof -
  assume "i < n"
  then have "1 + i \<noteq> 0"
    by (metis eq_neg_iff_add_eq_0 verit_minus_simplify(4) word_order.extremum_strict)
  then show ?thesis using unatSuc [of i] by (simp add: add.commute)
qed

lemma seq_step:
  assumes "(p \<bind> (\<lambda>(r, s1). if r \<noteq> 0 then e r s1 else k r s1)) = Some res"
  obtains (fail) r s1 where "p = Some (r, s1)" "r \<noteq> 0" "e r s1 = Some res"
        | (ok) s1 where "p = Some (0, s1)" "k 0 s1 = Some res"
  using assms by (auto simp: bind_eq_Some_conv split: if_splits)


lemma seq_loop:
  assumes "(p \<bind> (\<lambda>(ex, s1). case ex of Return rc \<Rightarrow> e rc s1 | Finished u \<Rightarrow> k s1)) = Some res"
  obtains (ret) rc s1 where "p = Some (Return rc, s1)" "e rc s1 = Some res"
        | (fin) u s1 where "p = Some (Finished u, s1)" "k s1 = Some res"
proof (cases p)
  case None
  with assms show ?thesis by simp
next
  case (Some a)
  obtain ex s1 where a: "a = (ex, s1)" by (cases a)
  show ?thesis
  proof (cases ex)
    case (Return rc)
    with assms Some a ret show ?thesis by simp
  next
    case (Finished u)
    with assms Some a fin show ?thesis by simp
  qed
qed



lemma answers_append:
  "answers h (xs @ ys) tw k \<longleftrightarrow> answers h xs tw k \<and> answers h ys tw (k + length xs)"
  by (induction xs arbitrary: k) auto

lemma start_ok:
  "answers h (PStart # phs) (twi s) (waits s) \<Longrightarrow>
     \<exists>s'. start h s = Some (0, s') \<and> twi s' = twi s \<and> waits s' = Suc (waits s) \<and>
          answers h phs (twi s') (waits s')"
  by (auto simp: start_def prim_defs completes_with_def split: twi_response.splits)

lemma sendAddress_ok:
  "answers h (PAddr # phs) (twi s) (waits s) \<Longrightarrow>
     \<exists>s'. sendAddress h a s = Some (0, s') \<and> twi s' = twi s \<and> waits s' = Suc (waits s) \<and>
          answers h phs (twi s') (waits s')"
  by (auto simp: sendAddress_def prim_defs completes_with_def split: twi_response.splits)

lemma sendByte_ok:
  "answers h (PByte # phs) (twi s) (waits s) \<Longrightarrow>
     \<exists>s'. sendByte h b s = Some (0, s') \<and> twi s' = twi s \<and> waits s' = Suc (waits s) \<and>
          answers h phs (twi s') (waits s')"
  by (auto simp: sendByte_def prim_defs completes_with_def split: twi_response.splits)

lemma receiveByte_ok:
  "answers h (PRecv (ack \<noteq> 0) # phs) (twi s) (waits s) \<Longrightarrow>
     \<exists>s'. receiveByte h ack s = Some (0, s') \<and> twi s' = twi s \<and> waits s' = Suc (waits s) \<and>
          answers h phs (twi s') (waits s')"
  by (auto simp: receiveByte_def prim_defs completes_with_def Let_def split: twi_response.splits)

lemma stop_ok:
  "answers h (PStop # phs) (twi s) (waits s) \<Longrightarrow>
     \<exists>s'. stop s = Some (0, s') \<and> twi s' = twi s \<and> waits s' = Suc (waits s) \<and>
          answers h phs (twi s') (waits s')"
  by (auto simp: stop_def prim_defs completes_with_def split: twi_response.splits)


lemma recv_phases_from:
  "i < c \<Longrightarrow> map (\<lambda>j. PRecv (Suc j \<noteq> c)) [i..<c]
     = PRecv (Suc i \<noteq> c) # map (\<lambda>j. PRecv (Suc j \<noteq> c)) [Suc i..<c]"
  by (simp add: upt_conv_Cons)

lemma recv_loop_ok:
  "answers h (map (\<lambda>j. PRecv (Suc j \<noteq> unat n)) [unat i..<unat n] @ phs) (twi s) (waits s) \<Longrightarrow>
   i \<le> n \<Longrightarrow>
     \<exists>s'. recv_loop h n (n - 1) i s = Some (Finished (), s') \<and> answers h phs (twi s') (waits s')"
proof (induction h n "n - 1" i s rule: recv_loop.induct)
  case (1 h numberBytes i s)
  show ?case
  proof (cases "i < numberBytes")
    case False
    with "1.prems" have "i = numberBytes" by simp
    with "1.prems" show ?thesis
      by (simp add: recv_loop.simps [of h numberBytes "numberBytes - 1" i s])
  next
    case True
    have su: "unat (i + 1) = Suc (unat i)" using True by (rule word_succ_unat)
    have lt: "unat i < unat numberBytes" using True by (simp add: word_less_nat_alt)
    have ack: "((if i = numberBytes - 1 then 0 else 1 :: u8) \<noteq> 0) \<longleftrightarrow> Suc (unat i) \<noteq> unat numberBytes"
    proof -
      have "i = numberBytes - 1 \<longleftrightarrow> i + 1 = numberBytes" by auto
      also have "\<dots> \<longleftrightarrow> unat (i + 1) = unat numberBytes" by (simp add: word_unat_eq_iff)
      finally show ?thesis using su by simp
    qed
    from "1.prems"(1) lt have
      "answers h (PRecv ((if i = numberBytes - 1 then 0 else 1 :: u8) \<noteq> 0) #
          map (\<lambda>j. PRecv (Suc j \<noteq> unat numberBytes)) [unat (i + 1)..<unat numberBytes] @ phs)
        (twi s) (waits s)"
      by (simp add: recv_phases_from su ack del: upt_Suc)
    from receiveByte_ok [OF this] obtain s1 where
      rb: "receiveByte h (if i = numberBytes - 1 then 0 else 1) s = Some (0, s1)" and
      a1: "answers h (map (\<lambda>j. PRecv (Suc j \<noteq> unat numberBytes)) [unat (i + 1)..<unat numberBytes] @ phs)
             (twi s1) (waits s1)"
      by blast
    let ?s2 = "s1\<lparr>data := (data s1)(unat i := TWDR s1),
                   bytesAvailable := i + 1, totalBytes := i + 1\<rparr>"
    have a2: "answers h (map (\<lambda>j. PRecv (Suc j \<noteq> unat numberBytes)) [unat (i + 1)..<unat numberBytes] @ phs)
             (twi ?s2) (waits ?s2)"
      using a1 by simp
    have le: "i + 1 \<le> numberBytes" using True by (rule inc_le)
    have nr: "\<not> (0::u8) \<noteq> 0" by simp
    from "1.hyps" [OF True rb refl nr a2 le] True rb show ?thesis
      by (simp add: recv_loop.simps [of h numberBytes "numberBytes - 1" i s])
  qed
qed



lemma recv_loop_start:
  "answers h ((map (\<lambda>j. PRecv (Suc j \<noteq> unat n)) [0..<unat n]) @ phs) (twi s) (waits s) \<Longrightarrow>
     \<exists>s'. recv_loop h n (n - 1) 0 s = Some (Finished (), s') \<and> answers h phs (twi s') (waits s')"
  using recv_loop_ok [of h n 0 phs s] by simp






lemma read_n_ok:
  assumes "answers h (read_phases (unat (capped h numberBytes))) (twi s) (waits s)"
  shows "\<exists>s'. read_n h address numberBytes s = Some (0, s')"
proof -
  have a0: "answers h (PStart # PAddr # (map (\<lambda>j. PRecv (Suc j \<noteq> unat (capped h numberBytes))) [0..<unat (capped h numberBytes)]) @ (PStop # [])) (twi (s\<lparr>bytesAvailable := 0, bufferIndex := 0\<rparr>)) (waits (s\<lparr>bytesAvailable := 0, bufferIndex := 0\<rparr>))"
    using assms
    by (simp add: write_phases_def read_phases_def reg_read_phases_def recv_phases_def
        eval_nat_numeral)
  from start_ok [OF a0] obtain s1 where
    e1: "start h (s\<lparr>bytesAvailable := 0, bufferIndex := 0\<rparr>) = Some (0, s1)" and
    a1: "answers h (PAddr # (map (\<lambda>j. PRecv (Suc j \<noteq> unat (capped h numberBytes))) [0..<unat (capped h numberBytes)]) @ (PStop # [])) (twi s1) (waits s1)"
    by blast
  from sendAddress_ok [OF a1] obtain s2 where
    e2: "sendAddress h (SLA_R h address) s1 = Some (0, s2)" and
    a2: "answers h ((map (\<lambda>j. PRecv (Suc j \<noteq> unat (capped h numberBytes))) [0..<unat (capped h numberBytes)]) @ (PStop # [])) (twi s2) (waits s2)"
    by blast
  from recv_loop_start [OF a2] obtain s3 where
    e3: "recv_loop h (capped h numberBytes) (capped h numberBytes - 1) 0 s2 = Some (Finished (), s3)" and
    a3: "answers h (PStop # []) (twi s3) (waits s3)"
    by blast
  from stop_ok [OF a3] obtain s4 where
    e4: "stop s3 = Some (0, s4)" and
    a4: "answers h ([]) (twi s4) (waits s4)"
    by blast
  show ?thesis
    using e1 e2 e3 e4
    by (simp add: read_n_def Let_def capped_def)
qed

lemma read_reg_ok:
  assumes "answers h (reg_read_phases 1 (unat (capped h numberBytes))) (twi s) (waits s)"
  shows "\<exists>s'. read_reg h address registerAddress numberBytes s = Some (0, s')"
proof -
  have a0: "answers h (PStart # PAddr # PByte # PStart # PAddr # (map (\<lambda>j. PRecv (Suc j \<noteq> unat (capped h numberBytes))) [0..<unat (capped h numberBytes)]) @ (PStop # [])) (twi (s\<lparr>bytesAvailable := 0, bufferIndex := 0\<rparr>)) (waits (s\<lparr>bytesAvailable := 0, bufferIndex := 0\<rparr>))"
    using assms
    by (simp add: write_phases_def read_phases_def reg_read_phases_def recv_phases_def
        eval_nat_numeral)
  from start_ok [OF a0] obtain s1 where
    e1: "start h (s\<lparr>bytesAvailable := 0, bufferIndex := 0\<rparr>) = Some (0, s1)" and
    a1: "answers h (PAddr # PByte # PStart # PAddr # (map (\<lambda>j. PRecv (Suc j \<noteq> unat (capped h numberBytes))) [0..<unat (capped h numberBytes)]) @ (PStop # [])) (twi s1) (waits s1)"
    by blast
  from sendAddress_ok [OF a1] obtain s2 where
    e2: "sendAddress h (SLA_W h address) s1 = Some (0, s2)" and
    a2: "answers h (PByte # PStart # PAddr # (map (\<lambda>j. PRecv (Suc j \<noteq> unat (capped h numberBytes))) [0..<unat (capped h numberBytes)]) @ (PStop # [])) (twi s2) (waits s2)"
    by blast
  from sendByte_ok [OF a2] obtain s3 where
    e3: "sendByte h registerAddress s2 = Some (0, s3)" and
    a3: "answers h (PStart # PAddr # (map (\<lambda>j. PRecv (Suc j \<noteq> unat (capped h numberBytes))) [0..<unat (capped h numberBytes)]) @ (PStop # [])) (twi s3) (waits s3)"
    by blast
  from start_ok [OF a3] obtain s4 where
    e4: "start h s3 = Some (0, s4)" and
    a4: "answers h (PAddr # (map (\<lambda>j. PRecv (Suc j \<noteq> unat (capped h numberBytes))) [0..<unat (capped h numberBytes)]) @ (PStop # [])) (twi s4) (waits s4)"
    by blast
  from sendAddress_ok [OF a4] obtain s5 where
    e5: "sendAddress h (SLA_R h address) s4 = Some (0, s5)" and
    a5: "answers h ((map (\<lambda>j. PRecv (Suc j \<noteq> unat (capped h numberBytes))) [0..<unat (capped h numberBytes)]) @ (PStop # [])) (twi s5) (waits s5)"
    by blast
  from recv_loop_start [OF a5] obtain s6 where
    e6: "recv_loop h (capped h numberBytes) (capped h numberBytes - 1) 0 s5 = Some (Finished (), s6)" and
    a6: "answers h (PStop # []) (twi s6) (waits s6)"
    by blast
  from stop_ok [OF a6] obtain s7 where
    e7: "stop s6 = Some (0, s7)" and
    a7: "answers h ([]) (twi s7) (waits s7)"
    by blast
  show ?thesis
    using e1 e2 e3 e4 e5 e6 e7
    by (simp add: read_reg_def Let_def capped_def)
qed

lemma read16_reg_ok:
  assumes "answers h (reg_read_phases 2 (unat (capped h numberBytes))) (twi s) (waits s)"
  shows "\<exists>s'. read16_reg h address registerAddress numberBytes s = Some (0, s')"
proof -
  have a0: "answers h (PStart # PAddr # PByte # PByte # PStart # PAddr # (map (\<lambda>j. PRecv (Suc j \<noteq> unat (capped h numberBytes))) [0..<unat (capped h numberBytes)]) @ (PStop # [])) (twi (s\<lparr>bytesAvailable := 0, bufferIndex := 0\<rparr>)) (waits (s\<lparr>bytesAvailable := 0, bufferIndex := 0\<rparr>))"
    using assms
    by (simp add: write_phases_def read_phases_def reg_read_phases_def recv_phases_def
        eval_nat_numeral)
  from start_ok [OF a0] obtain s1 where
    e1: "start h (s\<lparr>bytesAvailable := 0, bufferIndex := 0\<rparr>) = Some (0, s1)" and
    a1: "answers h (PAddr # PByte # PByte # PStart # PAddr # (map (\<lambda>j. PRecv (Suc j \<noteq> unat (capped h numberBytes))) [0..<unat (capped h numberBytes)]) @ (PStop # [])) (twi s1) (waits s1)"
    by blast
  from sendAddress_ok [OF a1] obtain s2 where
    e2: "sendAddress h (SLA_W h address) s1 = Some (0, s2)" and
    a2: "answers h (PByte # PByte # PStart # PAddr # (map (\<lambda>j. PRecv (Suc j \<noteq> unat (capped h numberBytes))) [0..<unat (capped h numberBytes)]) @ (PStop # [])) (twi s2) (waits s2)"
    by blast
  from sendByte_ok [OF a2] obtain s3 where
    e3: "sendByte h (ucast (drop_bit 8 registerAddress)) s2 = Some (0, s3)" and
    a3: "answers h (PByte # PStart # PAddr # (map (\<lambda>j. PRecv (Suc j \<noteq> unat (capped h numberBytes))) [0..<unat (capped h numberBytes)]) @ (PStop # [])) (twi s3) (waits s3)"
    by blast
  from sendByte_ok [OF a3] obtain s4 where
    e4: "sendByte h (ucast (registerAddress AND 0xFF)) s3 = Some (0, s4)" and
    a4: "answers h (PStart # PAddr # (map (\<lambda>j. PRecv (Suc j \<noteq> unat (capped h numberBytes))) [0..<unat (capped h numberBytes)]) @ (PStop # [])) (twi s4) (waits s4)"
    by blast
  from start_ok [OF a4] obtain s5 where
    e5: "start h s4 = Some (0, s5)" and
    a5: "answers h (PAddr # (map (\<lambda>j. PRecv (Suc j \<noteq> unat (capped h numberBytes))) [0..<unat (capped h numberBytes)]) @ (PStop # [])) (twi s5) (waits s5)"
    by blast
  from sendAddress_ok [OF a5] obtain s6 where
    e6: "sendAddress h (SLA_R h address) s5 = Some (0, s6)" and
    a6: "answers h ((map (\<lambda>j. PRecv (Suc j \<noteq> unat (capped h numberBytes))) [0..<unat (capped h numberBytes)]) @ (PStop # [])) (twi s6) (waits s6)"
    by blast
  from recv_loop_start [OF a6] obtain s7 where
    e7: "recv_loop h (capped h numberBytes) (capped h numberBytes - 1) 0 s6 = Some (Finished (), s7)" and
    a7: "answers h (PStop # []) (twi s7) (waits s7)"
    by blast
  from stop_ok [OF a7] obtain s8 where
    e8: "stop s7 = Some (0, s8)" and
    a8: "answers h ([]) (twi s8) (waits s8)"
    by blast
  show ?thesis
    using e1 e2 e3 e4 e5 e6 e7 e8
    by (simp add: read16_reg_def Let_def capped_def)
qed


lemmas run_defs = start_def sendAddress_def sendByte_def receiveByte_def stop_def prim_defs
  world_defs handler_defs

section \<open>Lockup recovery and the idle bus\<close>

text \<open>
  C2, as the code has it. A \<open>stop\<close> that returns a non-zero code has timed out and has
  issued the reset of lockup recovery after its stop condition. A \<open>sendAddress\<close> or
  \<open>sendByte\<close> that returns a non-zero code has issued, after its own command, the reset
  or a stop condition (followed by the reset when that stop timed out). A \<open>start\<close> or
  \<open>receiveByte\<close> that returns a non-zero code has issued the reset after its own command
  when the wait timed out or the status is arbitration-lost, and otherwise nothing: it
  returns the raw status. What each primitive returns and issues is fixed by the answers
  of the peripheral: on a timeout code 1 and the reset; on a status that is neither the
  expected one nor (for an address or a data byte) a not-acknowledge, the raw status and
  the reset, but for \<open>start\<close> and \<open>receiveByte\<close> the raw status (0 included) and
  nothing unless it is arbitration-lost; on a not-acknowledge the raw status and a stop
  condition.
\<close>

theorem failing_primitive_recovery:
  "(stop s = Some (rc, s') \<and> rc \<noteq> 0 \<longrightarrow> rc = 1 \<and> issued s s' = [IssueStop, Reset]) \<and>
   (sendAddress h a s = Some (rc, s') \<and> rc \<noteq> 0 \<longrightarrow>
      issued s s' = [IssueAddress a, Reset] \<or> issued s s' = [IssueAddress a, IssueStop] \<or>
      issued s s' = [IssueAddress a, IssueStop, Reset]) \<and>
   (sendByte h b s = Some (rc, s') \<and> rc \<noteq> 0 \<longrightarrow>
      issued s s' = [IssueByte b, Reset] \<or> issued s s' = [IssueByte b, IssueStop] \<or>
      issued s s' = [IssueByte b, IssueStop, Reset]) \<and>
   (start h s = Some (rc, s') \<and> rc \<noteq> 0 \<longrightarrow>
      (if twi s (waits s) = Stalled \<or> (\<exists>d. twi s (waits s) = Completed (LOST_ARBTRTN h) d)
       then issued s s' = [IssueStart, Reset]
       else issued s s' = [IssueStart] \<and> (\<exists>d. twi s (waits s) = Completed rc d))) \<and>
   (receiveByte h ack s = Some (rc, s') \<and> rc \<noteq> 0 \<longrightarrow>
      (if twi s (waits s) = Stalled \<or> (\<exists>d. twi s (waits s) = Completed (LOST_ARBTRTN h) d)
       then issued s s' = [IssueReceive (ack \<noteq> 0), Reset]
       else issued s s' = [IssueReceive (ack \<noteq> 0)] \<and> (\<exists>d. twi s (waits s) = Completed rc d))) \<and>
   (twi s (waits s) = Stalled \<and> timeOutDelay s \<noteq> 0 \<longrightarrow>
      outcome (stop s) = Some (1, bus s @ [IssueStop, Reset]) \<and>
      outcome (start h s) = Some (1, bus s @ [IssueStart, Reset]) \<and>
      outcome (sendAddress h a s) = Some (1, bus s @ [IssueAddress a, Reset]) \<and>
      outcome (sendByte h b s) = Some (1, bus s @ [IssueByte b, Reset]) \<and>
      outcome (receiveByte h ack s) = Some (1, bus s @ [IssueReceive (ack \<noteq> 0), Reset])) \<and>
   (twi s (waits s) = Completed st d \<longrightarrow>
      (st \<noteq> START h \<and> st \<noteq> REPEATED_START h \<longrightarrow>
         outcome (start h s)
           = Some (st, bus s @ (if st = LOST_ARBTRTN h then [IssueStart, Reset] else [IssueStart]))) \<and>
      (st = LOST_ARBTRTN h \<longrightarrow>
         outcome (receiveByte h ack s) = Some (st, bus s @ [IssueReceive (ack \<noteq> 0), Reset])) \<and>
      (st \<noteq> LOST_ARBTRTN h \<and> st \<noteq> (if ack \<noteq> 0 then MR_DATA_ACK h else MR_DATA_NACK h) \<longrightarrow>
         outcome (receiveByte h ack s) = Some (st, bus s @ [IssueReceive (ack \<noteq> 0)])) \<and>
      (st \<noteq> MT_SLA_ACK h \<and> st \<noteq> MR_SLA_ACK h \<and> st \<noteq> MT_SLA_NACK h \<and> st \<noteq> MR_SLA_NACK h \<longrightarrow>
         outcome (sendAddress h a s) = Some (st, bus s @ [IssueAddress a, Reset])) \<and>
      (st \<noteq> MT_SLA_ACK h \<and> st \<noteq> MR_SLA_ACK h \<and> (st = MT_SLA_NACK h \<or> st = MR_SLA_NACK h) \<longrightarrow>
         (twi s (Suc (waits s)) = Completed st2 d2 \<longrightarrow>
            outcome (sendAddress h a s) = Some (st, bus s @ [IssueAddress a, IssueStop])) \<and>
         (twi s (Suc (waits s)) = Stalled \<and> timeOutDelay s \<noteq> 0 \<longrightarrow>
            outcome (sendAddress h a s) = Some (st, bus s @ [IssueAddress a, IssueStop, Reset]))) \<and>
      (st \<noteq> MT_DATA_ACK h \<and> st \<noteq> MT_DATA_NACK h \<longrightarrow>
         outcome (sendByte h b s) = Some (st, bus s @ [IssueByte b, Reset])) \<and>
      (st \<noteq> MT_DATA_ACK h \<and> st = MT_DATA_NACK h \<longrightarrow>
         (twi s (Suc (waits s)) = Completed st2 d2 \<longrightarrow>
            outcome (sendByte h b s) = Some (st, bus s @ [IssueByte b, IssueStop])) \<and>
         (twi s (Suc (waits s)) = Stalled \<and> timeOutDelay s \<noteq> 0 \<longrightarrow>
            outcome (sendByte h b s) = Some (st, bus s @ [IssueByte b, IssueStop, Reset]))))"
proof -
  have 1: "stop s = Some (rc, s') \<and> rc \<noteq> 0 \<longrightarrow> rc = 1 \<and> issued s s' = [IssueStop, Reset]"
    using stop_recovers [of s rc s'] by blast
  have 2: "sendAddress h a s = Some (rc, s') \<and> rc \<noteq> 0 \<longrightarrow>
      issued s s' = [IssueAddress a, Reset] \<or> issued s s' = [IssueAddress a, IssueStop] \<or>
      issued s s' = [IssueAddress a, IssueStop, Reset]"
    using sendAddress_recovers [of h a s rc s'] by blast
  have 3: "sendByte h b s = Some (rc, s') \<and> rc \<noteq> 0 \<longrightarrow>
      issued s s' = [IssueByte b, Reset] \<or> issued s s' = [IssueByte b, IssueStop] \<or>
      issued s s' = [IssueByte b, IssueStop, Reset]"
    using sendByte_recovers [of h b s rc s'] by blast
  have 4: "start h s = Some (rc, s') \<and> rc \<noteq> 0 \<longrightarrow>
      (if twi s (waits s) = Stalled \<or> (\<exists>d. twi s (waits s) = Completed (LOST_ARBTRTN h) d)
       then issued s s' = [IssueStart, Reset]
       else issued s s' = [IssueStart] \<and> (\<exists>d. twi s (waits s) = Completed rc d))"
    using start_recovers [of h s rc s'] by blast
  have 5: "receiveByte h ack s = Some (rc, s') \<and> rc \<noteq> 0 \<longrightarrow>
      (if twi s (waits s) = Stalled \<or> (\<exists>d. twi s (waits s) = Completed (LOST_ARBTRTN h) d)
       then issued s s' = [IssueReceive (ack \<noteq> 0), Reset]
       else issued s s' = [IssueReceive (ack \<noteq> 0)] \<and> (\<exists>d. twi s (waits s) = Completed rc d))"
    using receiveByte_recovers [of h ack s rc s'] by blast
  have 6: "twi s (waits s) = Stalled \<and> timeOutDelay s \<noteq> 0 \<longrightarrow>
      outcome (stop s) = Some (1, bus s @ [IssueStop, Reset]) \<and>
      outcome (start h s) = Some (1, bus s @ [IssueStart, Reset]) \<and>
      outcome (sendAddress h a s) = Some (1, bus s @ [IssueAddress a, Reset]) \<and>
      outcome (sendByte h b s) = Some (1, bus s @ [IssueByte b, Reset]) \<and>
      outcome (receiveByte h ack s) = Some (1, bus s @ [IssueReceive (ack \<noteq> 0), Reset])"
    using stop_exact(1) [of s] start_exact(1) [of s h] sendAddress_exact(1) [of s h a]
      sendByte_exact(1) [of s h b] receiveByte_exact(1) [of s h ack]
    by blast
  have 7: "twi s (waits s) = Completed st d \<longrightarrow>
      (st \<noteq> START h \<and> st \<noteq> REPEATED_START h \<longrightarrow>
         outcome (start h s)
           = Some (st, bus s @ (if st = LOST_ARBTRTN h then [IssueStart, Reset] else [IssueStart]))) \<and>
      (st = LOST_ARBTRTN h \<longrightarrow>
         outcome (receiveByte h ack s) = Some (st, bus s @ [IssueReceive (ack \<noteq> 0), Reset])) \<and>
      (st \<noteq> LOST_ARBTRTN h \<and> st \<noteq> (if ack \<noteq> 0 then MR_DATA_ACK h else MR_DATA_NACK h) \<longrightarrow>
         outcome (receiveByte h ack s) = Some (st, bus s @ [IssueReceive (ack \<noteq> 0)])) \<and>
      (st \<noteq> MT_SLA_ACK h \<and> st \<noteq> MR_SLA_ACK h \<and> st \<noteq> MT_SLA_NACK h \<and> st \<noteq> MR_SLA_NACK h \<longrightarrow>
         outcome (sendAddress h a s) = Some (st, bus s @ [IssueAddress a, Reset])) \<and>
      (st \<noteq> MT_SLA_ACK h \<and> st \<noteq> MR_SLA_ACK h \<and> (st = MT_SLA_NACK h \<or> st = MR_SLA_NACK h) \<longrightarrow>
         (twi s (Suc (waits s)) = Completed st2 d2 \<longrightarrow>
            outcome (sendAddress h a s) = Some (st, bus s @ [IssueAddress a, IssueStop])) \<and>
         (twi s (Suc (waits s)) = Stalled \<and> timeOutDelay s \<noteq> 0 \<longrightarrow>
            outcome (sendAddress h a s) = Some (st, bus s @ [IssueAddress a, IssueStop, Reset]))) \<and>
      (st \<noteq> MT_DATA_ACK h \<and> st \<noteq> MT_DATA_NACK h \<longrightarrow>
         outcome (sendByte h b s) = Some (st, bus s @ [IssueByte b, Reset])) \<and>
      (st \<noteq> MT_DATA_ACK h \<and> st = MT_DATA_NACK h \<longrightarrow>
         (twi s (Suc (waits s)) = Completed st2 d2 \<longrightarrow>
            outcome (sendByte h b s) = Some (st, bus s @ [IssueByte b, IssueStop])) \<and>
         (twi s (Suc (waits s)) = Stalled \<and> timeOutDelay s \<noteq> 0 \<longrightarrow>
            outcome (sendByte h b s) = Some (st, bus s @ [IssueByte b, IssueStop, Reset])))"
    using start_exact(2) [of s st d h] receiveByte_exact(2,3) [of s st d h ack]
      sendAddress_exact(2) [of s st d h a] sendAddress_exact(3) [of s st d h st2 d2 a]
      sendAddress_exact(4) [of s st d h a]
      sendByte_exact(2) [of s st d h b] sendByte_exact(3) [of s st d h st2 d2 b]
      sendByte_exact(4) [of s st d h b]
    by blast
  show ?thesis
    by (rule conjI [OF 1 conjI [OF 2 conjI [OF 3 conjI [OF 4 conjI [OF 5 conjI [OF 6 7]]]]]])
qed

text \<open>
  Every timeout, arbitration lost (0x38) in each primitive, a bus error (0x00) after a
  start, a byte received with the wrong acknowledge status, and not-acknowledged
  addresses and data bytes whose stop condition completes or times out.
\<close>

theorem failing_primitive_recovery_witness:
  "outcome (stop (bus_answering [])) = Some (1, [IssueStop, Reset]) \<and>
   outcome (start avr (bus_answering [])) = Some (1, [IssueStart, Reset]) \<and>
   outcome (sendAddress avr 0xA0 (bus_answering [])) = Some (1, [IssueAddress 0xA0, Reset]) \<and>
   outcome (sendByte avr 0x10 (bus_answering [])) = Some (1, [IssueByte 0x10, Reset]) \<and>
   outcome (receiveByte avr 1 (bus_answering [])) = Some (1, [IssueReceive True, Reset]) \<and>
   outcome (start avr (bus_answering [Completed 0x38 0])) = Some (0x38, [IssueStart, Reset]) \<and>
   outcome (start avr (bus_answering [Completed 0x00 0])) = Some (0x00, [IssueStart]) \<and>
   outcome (receiveByte avr 0 (bus_answering [Completed 0x38 0]))
     = Some (0x38, [IssueReceive False, Reset]) \<and>
   outcome (receiveByte avr 1 (bus_answering [Completed 0x58 0xAB]))
     = Some (0x58, [IssueReceive True]) \<and>
   outcome (sendAddress avr 0xA0 (bus_answering [Completed 0x38 0]))
     = Some (0x38, [IssueAddress 0xA0, Reset]) \<and>
   outcome (sendAddress avr 0xA0 (bus_answering [Completed 0x20 0, Completed 0xF8 0]))
     = Some (0x20, [IssueAddress 0xA0, IssueStop]) \<and>
   outcome (sendAddress avr 0xA1 (bus_answering [Completed 0x48 0]))
     = Some (0x48, [IssueAddress 0xA1, IssueStop, Reset]) \<and>
   outcome (sendByte avr 0x10 (bus_answering [Completed 0x38 0]))
     = Some (0x38, [IssueByte 0x10, Reset]) \<and>
   outcome (sendByte avr 0x10 (bus_answering [Completed 0x30 0, Completed 0xF8 0]))
     = Some (0x30, [IssueByte 0x10, IssueStop]) \<and>
   outcome (sendByte avr 0x10 (bus_answering [Completed 0x30 0]))
     = Some (0x30, [IssueByte 0x10, IssueStop, Reset])"
  using
    failing_primitive_recovery [where s = "bus_answering []" and h = avr and a = "0xA0"
      and b = "0x10" and ack = 1]
    failing_primitive_recovery [where s = "bus_answering [Completed 0x38 0]" and h = avr
      and a = "0xA0" and b = "0x10" and ack = 0 and st = "0x38" and d = 0]
    failing_primitive_recovery [where s = "bus_answering [Completed 0x00 0]" and h = avr
      and st = "0x00" and d = 0]
    failing_primitive_recovery [where s = "bus_answering [Completed 0x58 0xAB]" and h = avr
      and ack = 1 and st = "0x58" and d = "0xAB"]
    failing_primitive_recovery [where s = "bus_answering [Completed 0x20 0, Completed 0xF8 0]"
      and h = avr and a = "0xA0" and st = "0x20" and d = 0 and ?st2.0 = "0xF8" and ?d2.0 = 0]
    failing_primitive_recovery [where s = "bus_answering [Completed 0x48 0]"
      and h = avr and a = "0xA1" and st = "0x48" and d = 0]
    failing_primitive_recovery [where s = "bus_answering [Completed 0x30 0, Completed 0xF8 0]"
      and h = avr and b = "0x10" and st = "0x30" and d = 0 and ?st2.0 = "0xF8" and ?d2.0 = 0]
    failing_primitive_recovery [where s = "bus_answering [Completed 0x30 0]"
      and h = avr and b = "0x10" and st = "0x30" and d = 0]
  by (simp add: bus_answering_def world_defs)

text \<open>
  C2 as stated fails: \<open>receiveByte\<close> asked to acknowledge and answered with status 0x58,
  and \<open>start\<close> answered with status 0xF8, return that status with neither a stop
  condition nor a reset among the commands issued.
\<close>

theorem unexpected_status_not_idle_counterexample:
  "outcome (receiveByte avr 1 (bus_answering [Completed 0x58 0xAB]))
     = Some (0x58, [IssueReceive True]) \<and>
   outcome (start avr (bus_answering [Completed 0xF8 0])) = Some (0xF8, [IssueStart]) \<and>
   IssueStop \<notin> set [IssueReceive True] \<and> Reset \<notin> set [IssueReceive True] \<and>
   IssueStop \<notin> set [IssueStart] \<and> Reset \<notin> set [IssueStart]"
  by (simp add: outcome_def receiveByte_def start_def prim_defs world_defs bus_answering_def)

section \<open>The bus scan restores the timeout\<close>

lemma scan_loop_restores:
  "timeOutDelay s \<noteq> 0 \<Longrightarrow>
     \<exists>ex s'. scan_loop h tempTime n sa s = Some (ex, s') \<and>
       (case ex of Return _ \<Rightarrow> timeOutDelay s' = tempTime | Finished _ \<Rightarrow> True)"
proof (induction h tempTime n sa s rule: scan_loop.induct)
  case (1 h tempTime totalDevicesFound sa s)
  show ?case
  proof (cases "sa \<le> 0x7F")
    case False
    then show ?thesis by simp
  next
    case True
    from "1.prems" obtain r1 s1 where st: "start h s = Some (r1, s1)"
      using start_returns by blast
    then have t1: "timeOutDelay s1 \<noteq> 0" using "1.prems" start_frame by metis
    have "\<exists>r2 s2. (if r1 = 0 then sendAddress h (SLA_W h sa) s1 else Some (r1, s1)) = Some (r2, s2)"
      using sendAddress_returns [OF t1, of h "SLA_W h sa"] by (cases "r1 = 0") auto
    then obtain r2 s2 where ad: "(if r1 = 0 then sendAddress h (SLA_W h sa) s1 else Some (r1, s1)) = Some (r2, s2)"
      by blast
    then have t2: "timeOutDelay s2 \<noteq> 0"
      using t1 sendAddress_frame [of h "SLA_W h sa" s1 r2 s2] by (cases "r1 = 0") auto
    show ?thesis
    proof (cases "r2 = 1")
      case True
      then show ?thesis using \<open>sa \<le> 0x7F\<close> st ad
        by (subst scan_loop.simps) simp
    next
      case False
      define p where "p = (if r2 \<noteq> 0 then (totalDevicesFound, s2)
                          else (totalDevicesFound + 1, s2\<lparr>serial := serial s2 @ [FoundDevice sa]\<rparr>))"
      obtain n3 s3 where p: "p = (n3, s3)" by (cases p)
      then have t3: "timeOutDelay s3 \<noteq> 0" using t2 by (auto simp: p_def split: if_splits)
      obtain r4 s4 where sp: "stop s3 = Some (r4, s4)" using stop_returns [OF t3] by blast
      then have t4: "timeOutDelay s4 \<noteq> 0" using t3 stop_frame by metis
      have nr: "\<not> (r2 \<noteq> 0 \<and> r2 = 1)" using False by simp
      have "\<exists>ex s'. scan_loop h tempTime n3 (sa + 1) s4 = Some (ex, s') \<and>
         (case ex of Return _ \<Rightarrow> timeOutDelay s' = tempTime | Finished _ \<Rightarrow> True)"
        by (rule "1.IH" [OF True st refl ad refl nr refl p [symmetric, unfolded p_def] sp refl t4])
      then show ?thesis using \<open>sa \<le> 0x7F\<close> st ad False p sp
        by (subst scan_loop.simps) (simp add: p_def)
    qed
  qed
qed

text \<open>
  C8: for every prior timeout and every behaviour of the peripheral, \<open>scan\<close> returns (its
  waits run under the temporary 80 ms timeout, so each of them ends) and the timeout it
  leaves is the one it found, whether it went through all 128 addresses or gave up on a
  bus timeout.
\<close>

theorem scan_restores_timeout: "\<exists>s'. scan h s = Some s' \<and> timeOutDelay s' = timeOutDelay s"
proof -
  let ?s0 = "(timeOut 80 s)\<lparr>serial := serial (timeOut 80 s) @ [Scanning, Blank]\<rparr>"
  have "timeOutDelay ?s0 \<noteq> 0" by (simp add: timeOut_def)
  from scan_loop_restores [OF this, of h "timeOutDelay s" 0 0]
  obtain ex s' where "scan_loop h (timeOutDelay s) 0 0 ?s0 = Some (ex, s')"
    and "case ex of Return _ \<Rightarrow> timeOutDelay s' = timeOutDelay s | Finished _ \<Rightarrow> True"
    by blast
  then show ?thesis
    by (cases ex) (simp_all add: scan_def Let_def)
qed

section \<open>The exhausted buffer and the receive with a target\<close>

text \<open>
  C9: with no byte available, \<open>receive\<close> returns 0, leaves the cursor at 0 and the
  available count at 0 (it does not underflow), and a second call gives the same result
  and the same state.
\<close>

theorem receive_exhausted:
  "bytesAvailable s = 0 \<Longrightarrow>
     fst (receive s) = 0 \<and>
     bufferIndex (snd (receive s)) = 0 \<and>
     bytesAvailable (snd (receive s)) = 0 \<and>
     available (snd (receive s)) = 0 \<and>
     receive (snd (receive s)) = (0, snd (receive s))"
  by (simp add: receive_def Let_def available_def)

text \<open>A buffer of three bytes, all of them fetched.\<close>

theorem receive_exhausted_witness:
  "bytesAvailable ((power_on (script []))\<lparr>totalBytes := 3\<rparr>) = 0 \<and>
   fst (receive ((power_on (script []))\<lparr>totalBytes := 3\<rparr>)) = 0 \<and>
   bufferIndex (snd (receive ((power_on (script []))\<lparr>totalBytes := 3\<rparr>))) = 0 \<and>
   bytesAvailable (snd (receive ((power_on (script []))\<lparr>totalBytes := 3\<rparr>))) = 0"
  using receive_exhausted [of "(power_on (script []))\<lparr>totalBytes := 3\<rparr>"]
  by (simp add: power_on_def)

text \<open>
  C10: the two-argument receive returns exactly when the one-argument receive does, and
  always with a byte stored through the target: on success code 0 and the content of the
  data register, which is the byte the peripheral delivered; on a failure the byte 0x00
  and the code of the one-argument receive, its timeout code 1 replaced by 6.
\<close>

theorem receiveByte_into_result:
  "(receiveByte_into h ack s = None \<longleftrightarrow> receiveByte h ack s = None) \<and>
   (receiveByte h ack s = Some (0, s') \<longrightarrow>
      receiveByte_into h ack s = Some (0, TWDR s', s')) \<and>
   (receiveByte h ack s = Some (stat, s') \<and> stat \<noteq> 0 \<longrightarrow>
      receiveByte_into h ack s = Some (if stat = 1 then 6 else stat, 0x00, s')) \<and>
   (twi s (waits s) = Completed st d \<and> receiveByte h ack s = Some (0, s') \<longrightarrow> TWDR s' = d) \<and>
   (twi s (waits s) = Stalled \<and> timeOutDelay s \<noteq> 0 \<longrightarrow>
      map_option fst (receiveByte h ack s) = Some 1 \<and>
      map_option fst (receiveByte_into h ack s) = Some 6 \<and>
      map_option (fst \<circ> snd) (receiveByte_into h ack s) = Some 0x00)"
  by (auto simp: receiveByte_into_def receive_error_handler_def receiveByte_def prim_defs Let_def
      split: prim_splits)

text \<open>A timed-out receive, and a last byte 0xAB received and not acknowledged.\<close>

theorem receiveByte_into_result_witness:
  "twi stalled_bus (waits stalled_bus) = Stalled \<and> timeOutDelay stalled_bus \<noteq> 0 \<and>
   map_option fst (receiveByte avr 1 stalled_bus) = Some 1 \<and>
   map_option fst (receiveByte_into avr 1 stalled_bus) = Some 6 \<and>
   map_option (fst \<circ> snd) (receiveByte_into avr 1 stalled_bus) = Some 0x00 \<and>
   receiveByte avr 0 (timeOut 100 (power_on (script [Completed 0x58 0xAB])))
     = Some (0, the (map_option snd (receiveByte avr 0 (timeOut 100 (power_on (script [Completed 0x58 0xAB])))))) \<and>
   map_option (fst \<circ> snd) (receiveByte_into avr 0 (timeOut 100 (power_on (script [Completed 0x58 0xAB]))))
     = Some 0xAB"
proof -
  let ?s = "timeOut 100 (power_on (script [Completed 0x58 0xAB]))"
  have a: "twi stalled_bus (waits stalled_bus) = Stalled \<and> timeOutDelay stalled_bus \<noteq> 0"
    by (simp add: world_defs stalled_bus_def)
  have b: "receiveByte avr 0 ?s = Some (0, the (map_option snd (receiveByte avr 0 ?s)))"
    by (simp add: receiveByte_def prim_defs world_defs)
  have c: "twi ?s (waits ?s) = Completed 0x58 0xAB"
    by (simp add: world_defs)
  show ?thesis
    using a b c receiveByte_into_result [where h = avr and ack = 1 and s = stalled_bus]
      receiveByte_into_result [where h = avr and ack = 0 and s = "?s"
        and s' = "the (map_option snd (receiveByte avr 0 ?s))" and st = "0x58" and d = "0xAB"]
    by simp
qed

section \<open>How many bytes a read into the internal buffer clocks in\<close>

lemma recv_loop_count:
  "recv_loop h n nack i s = Some (ex, s') \<Longrightarrow> i \<le> n \<Longrightarrow>
     (unat (bytesAvailable s') \<le> unat n \<or> bytesAvailable s' = bytesAvailable s) \<and>
     (ex = Finished () \<longrightarrow>
        bytesAvailable s' = (if i < n then n else bytesAvailable s) \<and>
        clocked_in (bus s') = clocked_in (bus s) + (unat n - unat i)) \<and>
     (\<forall>rc. ex = Return rc \<longrightarrow> rc \<noteq> 0)"
proof (induction h n nack i s rule: recv_loop.induct)
  case (1 h numberBytes nack i s)
  show ?case
  proof (cases "i < numberBytes")
    case False
    with "1.prems" show ?thesis by (auto simp: recv_loop.simps [of h numberBytes nack i s])
  next
    case True
    from "1.prems"(1) True obtain r s1 where
      rb: "receiveByte h (if i = nack then 0 else 1) s = Some (r, s1)"
      by (auto simp: recv_loop.simps [of h numberBytes nack i s] split: option.splits)
    note fr = receiveByte_frame [OF rb]
    show ?thesis
    proof (cases "r = 0")
      case False
      with "1.prems" True rb fr show ?thesis
        by (auto simp: recv_loop.simps [of h numberBytes nack i s] handlers_zero_iff)
    next
      case r0: True
      let ?s2 = "s1\<lparr>data := (data s1)(unat i := TWDR s1),
                     bytesAvailable := i + 1, totalBytes := i + 1\<rparr>"
      have rec: "recv_loop h numberBytes nack (i + 1) ?s2 = Some (ex, s')"
        using "1.prems"(1) True rb r0 by (simp add: recv_loop.simps [of h numberBytes nack i s])
      have le: "i + 1 \<le> numberBytes" using True by (rule inc_le)
      have su: "unat (i + 1) = Suc (unat i)" using True by (rule word_succ_unat)
      have nr: "\<not> r \<noteq> 0" using r0 by simp
      note ih = "1.IH" [OF True rb refl nr rec le]
      have lt: "unat i < unat numberBytes" using True by (simp add: word_less_nat_alt)
      have le': "unat (i + 1) \<le> unat numberBytes" using le by (simp add: word_le_nat_alt)
      show ?thesis
      proof (cases "i + 1 < numberBytes")
        case True
        with ih fr su lt le' \<open>i < numberBytes\<close> show ?thesis by auto
      next
        case False
        with le have "i + 1 = numberBytes" by simp
        with ih fr su lt \<open>i < numberBytes\<close> show ?thesis by auto
      qed
    qed
  qed
qed

lemma recv_loop_run:
  "recv_loop h n nack 0 s = Some (ex, s') \<Longrightarrow>
     (unat (bytesAvailable s') \<le> unat n \<or> bytesAvailable s' = bytesAvailable s) \<and>
     (ex = Finished () \<longrightarrow> n \<noteq> 0 \<longrightarrow>
        bytesAvailable s' = n \<and> clocked_in (bus s') = clocked_in (bus s) + unat n) \<and>
     (\<forall>rc. ex = Return rc \<longrightarrow> rc \<noteq> 0)"
  using recv_loop_count [of h n nack 0 s ex s'] by (auto simp: word_neq_0_conv)

lemma capped_nonzero: "capped h n \<noteq> 0"
  by (simp add: capped_def Let_def)

lemma capped_count:
  "0 < MAX_BUFFER_SIZE h \<Longrightarrow> unat (capped h n) = min (max (unat n) 1) (MAX_BUFFER_SIZE h)"
proof -
  let ?cap = "MAX_BUFFER_SIZE h"
  assume c: "0 < ?cap"
  have m: "unat (of_nat (min (unat n) ?cap) :: u8) = min (unat n) ?cap"
    by (rule le_unat_uoi [of _ n]) simp
  show ?thesis
  proof (cases "(of_nat (min (unat n) ?cap) :: u8) = 0")
    case True
    then have "min (unat n) ?cap = 0" using m by simp
    with c have "unat n = 0" by (simp add: min_def split: if_splits)
    with True c show ?thesis by (simp add: capped_def Let_def)
  next
    case False
    then have "min (unat n) ?cap \<noteq> 0" by (cases "min (unat n) ?cap = 0") simp_all
    then have "0 < unat n" by (cases "unat n = 0") simp_all
    with False m c show ?thesis by (auto simp: capped_def Let_def min_def max_def)
  qed
qed

lemma read_n_count:
  assumes "read_n h a n s = Some (rc, s')"
  shows "unat (bytesAvailable s') \<le> unat (capped h n) \<and>
         (rc = 0 \<longrightarrow> bytesAvailable s' = capped h n \<and>
            clocked_in (bus s') = clocked_in (bus s) + unat (capped h n))"
  using assms capped_nonzero [of h n]
  unfolding read_n_def Let_def capped_def [symmetric, unfolded Let_def]
  apply (elim seq_step seq_loop)
  apply (auto simp: handlers_zero_iff simp del: recv_loop.simps
      dest!: start_frame sendAddress_frame sendByte_frame stop_frame recv_loop_run)
  done

lemma read_reg_count:
  assumes "read_reg h a r n s = Some (rc, s')"
  shows "unat (bytesAvailable s') \<le> unat (capped h n) \<and>
         (rc = 0 \<longrightarrow> bytesAvailable s' = capped h n \<and>
            clocked_in (bus s') = clocked_in (bus s) + unat (capped h n))"
  using assms capped_nonzero [of h n]
  unfolding read_reg_def Let_def capped_def [symmetric, unfolded Let_def]
  apply (elim seq_step seq_loop)
  apply (auto simp: handlers_zero_iff simp del: recv_loop.simps
      dest!: start_frame sendAddress_frame sendByte_frame stop_frame recv_loop_run)
  done

lemma read16_reg_count:
  assumes "read16_reg h a r n s = Some (rc, s')"
  shows "unat (bytesAvailable s') \<le> unat (capped h n) \<and>
         (rc = 0 \<longrightarrow> bytesAvailable s' = capped h n \<and>
            clocked_in (bus s') = clocked_in (bus s) + unat (capped h n))"
  using assms capped_nonzero [of h n]
  unfolding read16_reg_def Let_def capped_def [symmetric, unfolded Let_def]
  apply (elim seq_step seq_loop)
  apply (auto simp: handlers_zero_iff simp del: recv_loop.simps
      dest!: start_frame sendAddress_frame sendByte_frame stop_frame recv_loop_run)
  done

lemma two_data_bytes: "replicate 2 PByte = [PByte, PByte]"
  by (simp add: numeral_2_eq_2)

lemma unat_word_of_int_u8: "unat (word_of_int m :: u8) = nat (m mod 256)"
  by (simp add: unat_eq_nat_uint uint_word_of_int_eq take_bit_eq_mod)

lemma capped_read_count:
  "0 < MAX_BUFFER_SIZE h \<Longrightarrow> unat (capped h n) = read_count h (unat n)"
  by (simp add: capped_count read_count_def)

lemma read_n_produces:
  assumes "0 < MAX_BUFFER_SIZE h"
    and "answers h (read_phases (read_count h (unat n))) (twi s) (waits s)"
  shows "\<exists>t. read_n h a n s = Some (0, t) \<and> unat (available t) = read_count h (unat n) \<and>
           clocked_in (bus t) = clocked_in (bus s) + read_count h (unat n)"
proof -
  from assms have "answers h (read_phases (unat (capped h n))) (twi s) (waits s)"
    by (simp add: capped_read_count)
  from read_n_ok [OF this] obtain t where t: "read_n h a n s = Some (0, t)" by blast
  from read_n_count [OF t] t assms(1) show ?thesis
    by (auto simp: available_def capped_read_count)
qed

lemma read_reg_produces:
  assumes "0 < MAX_BUFFER_SIZE h"
    and "answers h (reg_read_phases 1 (read_count h (unat n))) (twi s) (waits s)"
  shows "\<exists>t. read_reg h a r n s = Some (0, t) \<and> unat (available t) = read_count h (unat n) \<and>
           clocked_in (bus t) = clocked_in (bus s) + read_count h (unat n)"
proof -
  from assms have "answers h (reg_read_phases 1 (unat (capped h n))) (twi s) (waits s)"
    by (simp add: capped_read_count)
  from read_reg_ok [OF this] obtain t where t: "read_reg h a r n s = Some (0, t)" by blast
  from read_reg_count [OF t] t assms(1) show ?thesis
    by (auto simp: available_def capped_read_count)
qed

lemma read16_reg_produces:
  assumes "0 < MAX_BUFFER_SIZE h"
    and "answers h (reg_read_phases 2 (read_count h (unat n))) (twi s) (waits s)"
  shows "\<exists>t. read16_reg h a r n s = Some (0, t) \<and> unat (available t) = read_count h (unat n) \<and>
           clocked_in (bus t) = clocked_in (bus s) + read_count h (unat n)"
proof -
  from assms have "answers h (reg_read_phases 2 (unat (capped h n))) (twi s) (waits s)"
    by (simp add: capped_read_count)
  from read16_reg_ok [OF this] obtain t where t: "read16_reg h a r n s = Some (0, t)" by blast
  from read16_reg_count [OF t] t assms(1) show ?thesis
    by (auto simp: available_def capped_read_count)
qed

text \<open>
  C6, as the code has it: with a buffer capacity of at least one byte, every read into
  the internal buffer that takes its count \<open>n\<close> as \<^verbatim>\<open>uint8_t\<close> (without register, with
  an 8-bit and with a 16-bit register address) leaves an available count that does not
  exceed the capacity, however it ends; when it returns 0, the available count and the
  number of bytes clocked in are both \<open>min (max n 1) MAX_BUFFER_SIZE\<close>; and it does
  return 0, with that many bytes, whenever the peripheral acknowledges the phases of a
  read of that many bytes. The \<^verbatim>\<open>int\<close> overloads convert the count to \<^verbatim>\<open>uint8_t\<close>
  first: the same holds of them for the count \<open>m mod 256\<close>.
\<close>

theorem internal_read_count:
  assumes "0 < MAX_BUFFER_SIZE h"
  shows "(read_n h address n s = Some (rc, s') \<longrightarrow>
     unat (available s') \<le> MAX_BUFFER_SIZE h \<and>
     (rc = 0 \<longrightarrow>
        unat (available s') = read_count h (unat n) \<and>
        clocked_in (bus s') = clocked_in (bus s) + read_count h (unat n))) \<and>
   (read_reg h address reg n s = Some (rc, s') \<longrightarrow>
     unat (available s') \<le> MAX_BUFFER_SIZE h \<and>
     (rc = 0 \<longrightarrow>
        unat (available s') = read_count h (unat n) \<and>
        clocked_in (bus s') = clocked_in (bus s) + read_count h (unat n))) \<and>
   (read16_reg h address wideReg n s = Some (rc, s') \<longrightarrow>
     unat (available s') \<le> MAX_BUFFER_SIZE h \<and>
     (rc = 0 \<longrightarrow>
        unat (available s') = read_count h (unat n) \<and>
        clocked_in (bus s') = clocked_in (bus s) + read_count h (unat n))) \<and>
   (read_n_int h iaddress m s = Some (rc, s') \<longrightarrow>
     unat (available s') \<le> MAX_BUFFER_SIZE h \<and>
     (rc = 0 \<longrightarrow>
        unat (available s') = read_count h (nat (m mod 256)) \<and>
        clocked_in (bus s') = clocked_in (bus s) + read_count h (nat (m mod 256)))) \<and>
   (read_reg_int h iaddress ireg m s = Some (rc, s') \<longrightarrow>
     unat (available s') \<le> MAX_BUFFER_SIZE h \<and>
     (rc = 0 \<longrightarrow>
        unat (available s') = read_count h (nat (m mod 256)) \<and>
        clocked_in (bus s') = clocked_in (bus s) + read_count h (nat (m mod 256)))) \<and>
   (answers h (read_phases (read_count h (unat n))) (twi s) (waits s) \<longrightarrow>
     (\<exists>t. read_n h address n s = Some (0, t) \<and> unat (available t) = read_count h (unat n) \<and>
          clocked_in (bus t) = clocked_in (bus s) + read_count h (unat n))) \<and>
   (answers h (reg_read_phases 1 (read_count h (unat n))) (twi s) (waits s) \<longrightarrow>
     (\<exists>t. read_reg h address reg n s = Some (0, t) \<and> unat (available t) = read_count h (unat n) \<and>
          clocked_in (bus t) = clocked_in (bus s) + read_count h (unat n))) \<and>
   (answers h (reg_read_phases 2 (read_count h (unat n))) (twi s) (waits s) \<longrightarrow>
     (\<exists>t. read16_reg h address wideReg n s = Some (0, t) \<and> unat (available t) = read_count h (unat n) \<and>
          clocked_in (bus t) = clocked_in (bus s) + read_count h (unat n))) \<and>
   (answers h (read_phases (read_count h (nat (m mod 256)))) (twi s) (waits s) \<longrightarrow>
     (\<exists>t. read_n_int h iaddress m s = Some (0, t) \<and> unat (available t) = read_count h (nat (m mod 256)) \<and>
          clocked_in (bus t) = clocked_in (bus s) + read_count h (nat (m mod 256)))) \<and>
   (answers h (reg_read_phases 1 (read_count h (nat (m mod 256)))) (twi s) (waits s) \<longrightarrow>
     (\<exists>t. read_reg_int h iaddress ireg m s = Some (0, t) \<and> unat (available t) = read_count h (nat (m mod 256)) \<and>
          clocked_in (bus t) = clocked_in (bus s) + read_count h (nat (m mod 256))))"
proof -
  note c = capped_read_count [OF assms]
  have ret: "(read_n h address n s = Some (rc, s') \<longrightarrow>
     unat (available s') \<le> MAX_BUFFER_SIZE h \<and>
     (rc = 0 \<longrightarrow>
        unat (available s') = read_count h (unat n) \<and>
        clocked_in (bus s') = clocked_in (bus s) + read_count h (unat n))) \<and>
   (read_reg h address reg n s = Some (rc, s') \<longrightarrow>
     unat (available s') \<le> MAX_BUFFER_SIZE h \<and>
     (rc = 0 \<longrightarrow>
        unat (available s') = read_count h (unat n) \<and>
        clocked_in (bus s') = clocked_in (bus s) + read_count h (unat n))) \<and>
   (read16_reg h address wideReg n s = Some (rc, s') \<longrightarrow>
     unat (available s') \<le> MAX_BUFFER_SIZE h \<and>
     (rc = 0 \<longrightarrow>
        unat (available s') = read_count h (unat n) \<and>
        clocked_in (bus s') = clocked_in (bus s) + read_count h (unat n))) \<and>
   (read_n_int h iaddress m s = Some (rc, s') \<longrightarrow>
     unat (available s') \<le> MAX_BUFFER_SIZE h \<and>
     (rc = 0 \<longrightarrow>
        unat (available s') = read_count h (nat (m mod 256)) \<and>
        clocked_in (bus s') = clocked_in (bus s) + read_count h (nat (m mod 256)))) \<and>
   (read_reg_int h iaddress ireg m s = Some (rc, s') \<longrightarrow>
     unat (available s') \<le> MAX_BUFFER_SIZE h \<and>
     (rc = 0 \<longrightarrow>
        unat (available s') = read_count h (nat (m mod 256)) \<and>
        clocked_in (bus s') = clocked_in (bus s) + read_count h (nat (m mod 256))))"
    using read_n_count [of h address n s rc s'] read_reg_count [of h address reg n s rc s']
      read16_reg_count [of h address wideReg n s rc s']
      read_n_count [of h "word_of_int iaddress" "word_of_int m" s rc s']
      read_reg_count [of h "word_of_int iaddress" "word_of_int ireg" "word_of_int m" s rc s']
      c [of n] c [of "word_of_int m"]
    by (simp add: available_def read_n_int_def read_reg_int_def unat_word_of_int_u8 read_count_def)
  have prod: "(answers h (read_phases (read_count h (unat n))) (twi s) (waits s) \<longrightarrow>
     (\<exists>t. read_n h address n s = Some (0, t) \<and> unat (available t) = read_count h (unat n) \<and>
          clocked_in (bus t) = clocked_in (bus s) + read_count h (unat n))) \<and>
   (answers h (reg_read_phases 1 (read_count h (unat n))) (twi s) (waits s) \<longrightarrow>
     (\<exists>t. read_reg h address reg n s = Some (0, t) \<and> unat (available t) = read_count h (unat n) \<and>
          clocked_in (bus t) = clocked_in (bus s) + read_count h (unat n))) \<and>
   (answers h (reg_read_phases 2 (read_count h (unat n))) (twi s) (waits s) \<longrightarrow>
     (\<exists>t. read16_reg h address wideReg n s = Some (0, t) \<and> unat (available t) = read_count h (unat n) \<and>
          clocked_in (bus t) = clocked_in (bus s) + read_count h (unat n))) \<and>
   (answers h (read_phases (read_count h (nat (m mod 256)))) (twi s) (waits s) \<longrightarrow>
     (\<exists>t. read_n_int h iaddress m s = Some (0, t) \<and> unat (available t) = read_count h (nat (m mod 256)) \<and>
          clocked_in (bus t) = clocked_in (bus s) + read_count h (nat (m mod 256)))) \<and>
   (answers h (reg_read_phases 1 (read_count h (nat (m mod 256)))) (twi s) (waits s) \<longrightarrow>
     (\<exists>t. read_reg_int h iaddress ireg m s = Some (0, t) \<and> unat (available t) = read_count h (nat (m mod 256)) \<and>
          clocked_in (bus t) = clocked_in (bus s) + read_count h (nat (m mod 256))))"
    using read_n_produces [OF assms, of n s address] read_reg_produces [OF assms, of n s address reg]
      read16_reg_produces [OF assms, of n s address wideReg]
      read_n_produces [OF assms, of "word_of_int m" s "word_of_int iaddress"]
      read_reg_produces [OF assms, of "word_of_int m" s "word_of_int iaddress" "word_of_int ireg"]
    by (simp add: read_n_int_def read_reg_int_def unat_word_of_int_u8)
  from ret prod show ?thesis by simp
qed

text \<open>
  A request for 40 bytes with a two byte buffer is capped to two bytes on each of the
  three paths; a request for 256 bytes through the \<^verbatim>\<open>int\<close> overload is a request for 0
  bytes after the conversion, treated as a request for one, and a request for 258 bytes
  with an 8-bit register is a request for two.
\<close>

theorem internal_read_count_witness:
  "0 < MAX_BUFFER_SIZE two_byte_buffer \<and>
   answers two_byte_buffer (read_phases (read_count two_byte_buffer (unat (40::u8))))
     (twi two_bytes_read) (waits two_bytes_read) \<and>
   map_option fst (read_n two_byte_buffer 0x68 40 two_bytes_read) = Some 0 \<and>
   map_option (unat \<circ> available \<circ> snd) (read_n two_byte_buffer 0x68 40 two_bytes_read)
     = Some 2 \<and>
   map_option (clocked_in \<circ> bus \<circ> snd) (read_n two_byte_buffer 0x68 40 two_bytes_read) = Some 2 \<and>
   map_option fst (read_reg two_byte_buffer 0x68 0x00 40 two_bytes_read_reg) = Some 0 \<and>
   map_option (unat \<circ> available \<circ> snd)
     (read_reg two_byte_buffer 0x68 0x00 40 two_bytes_read_reg) = Some 2 \<and>
   map_option fst (read16_reg two_byte_buffer 0x50 0x1234 40 two_bytes_read16) = Some 0 \<and>
   map_option (unat \<circ> available \<circ> snd)
     (read16_reg two_byte_buffer 0x50 0x1234 40 two_bytes_read16) = Some 2 \<and>
   map_option fst (read_n_int two_byte_buffer 0x68 256 one_byte_read) = Some 0 \<and>
   map_option (unat \<circ> available \<circ> snd)
     (read_n_int two_byte_buffer 0x68 256 one_byte_read) = Some 1 \<and>
   map_option fst (read_reg_int two_byte_buffer 0x68 0x00 258 two_bytes_read_reg) = Some 0 \<and>
   map_option (unat \<circ> available \<circ> snd)
     (read_reg_int two_byte_buffer 0x68 0x00 258 two_bytes_read_reg) = Some 2"
proof -
  have cap: "0 < MAX_BUFFER_SIZE two_byte_buffer"
    by (simp add: two_byte_buffer_def avr_def)
  have n: "read_count two_byte_buffer (unat (40::u8)) = 2"
    "read_count two_byte_buffer (nat (256 mod 256)) = 1"
    "read_count two_byte_buffer (nat (258 mod 256)) = 2"
    by (simp_all add: read_count_def two_byte_buffer_def)
  have a: "answers two_byte_buffer (read_phases 2) (twi two_bytes_read) (waits two_bytes_read)"
    "answers two_byte_buffer (reg_read_phases 1 2) (twi two_bytes_read_reg) (waits two_bytes_read_reg)"
    "answers two_byte_buffer (reg_read_phases 2 2) (twi two_bytes_read16) (waits two_bytes_read16)"
    "answers two_byte_buffer (read_phases 1) (twi one_byte_read) (waits one_byte_read)"
    by (simp_all add: read_phases_def reg_read_phases_def recv_phases_def upt_conv_Cons
        two_data_bytes completes_with_def two_byte_buffer_def world_defs two_bytes_read_def
        two_bytes_read_reg_def two_bytes_read16_def one_byte_read_def)
  have b: "clocked_in (bus two_bytes_read) = 0"
    by (simp add: two_bytes_read_def world_defs)
  have 1: "\<exists>t. read_n two_byte_buffer 0x68 40 two_bytes_read = Some (0, t) \<and>
             unat (available t) = 2 \<and> clocked_in (bus t) = 2"
    using internal_read_count [OF cap, where address = "0x68" and n = 40 and s = two_bytes_read,
        THEN conjunct2, THEN conjunct2, THEN conjunct2, THEN conjunct2, THEN conjunct2, THEN conjunct1] n a b by simp
  have 2: "\<exists>t. read_reg two_byte_buffer 0x68 0x00 40 two_bytes_read_reg = Some (0, t) \<and>
             unat (available t) = 2"
    using internal_read_count [OF cap, where address = "0x68" and reg = "0x00" and n = 40
        and s = two_bytes_read_reg, THEN conjunct2, THEN conjunct2, THEN conjunct2, THEN conjunct2, THEN conjunct2, THEN conjunct2, THEN conjunct1] n a by auto
  have 3: "\<exists>t. read16_reg two_byte_buffer 0x50 0x1234 40 two_bytes_read16 = Some (0, t) \<and>
             unat (available t) = 2"
    using internal_read_count [OF cap, where address = "0x50" and wideReg = "0x1234" and n = 40
        and s = two_bytes_read16, THEN conjunct2, THEN conjunct2, THEN conjunct2, THEN conjunct2, THEN conjunct2, THEN conjunct2, THEN conjunct2, THEN conjunct1] n a by auto
  have 4: "\<exists>t. read_n_int two_byte_buffer 0x68 256 one_byte_read = Some (0, t) \<and>
             unat (available t) = 1"
    using internal_read_count [OF cap, where iaddress = "0x68" and m = 256 and s = one_byte_read,
        THEN conjunct2, THEN conjunct2, THEN conjunct2, THEN conjunct2, THEN conjunct2, THEN conjunct2, THEN conjunct2, THEN conjunct2, THEN conjunct1] n a by auto
  have 5: "\<exists>t. read_reg_int two_byte_buffer 0x68 0x00 258 two_bytes_read_reg = Some (0, t) \<and>
             unat (available t) = 2"
    using internal_read_count [OF cap, where iaddress = "0x68" and ireg = "0x00" and m = 258
        and s = two_bytes_read_reg, THEN conjunct2, THEN conjunct2, THEN conjunct2, THEN conjunct2, THEN conjunct2, THEN conjunct2, THEN conjunct2, THEN conjunct2, THEN conjunct2] n a by auto
  from cap n(1) a(1) 1 2 3 4 5 show ?thesis by auto
qed

text \<open>
  C6 as stated fails for the \<^verbatim>\<open>int\<close> overloads: a request for 260 bytes with the
  32 byte buffer clocks in 4 bytes and leaves 4 available, where the formula gives 32.
\<close>

theorem int_read_count_counterexample:
  "map_option fst (read_n_int avr 0x68 260 four_bytes_read) = Some 0 \<and>
   map_option (available \<circ> snd) (read_n_int avr 0x68 260 four_bytes_read) = Some 4 \<and>
   map_option (clocked_in \<circ> bus \<circ> snd) (read_n_int avr 0x68 260 four_bytes_read) = Some 4 \<and>
   read_count avr 260 = 32"
  by (simp add: read_n_int_def read_n_def run_defs Let_def four_bytes_read_def available_def
      read_count_def)

section \<open>Where the sequencer departs from the fault table\<close>

text \<open>
  C1, on the code: the address is not acknowledged (status 0x20) in
  \<^verbatim>\<open>write(address, registerAddress)\<close>. The write goes on, puts the register byte on
  the bus, which times out, and returns 3; \<^verbatim>\<open>write16\<close> on the same bus stops after the
  address and returns 0x20.
\<close>

theorem write_reg_continues_after_address_nack:
  "map_option fst
     (write_reg avr 0x50 0x10
        (timeOut 100 (power_on (script [Completed 0x08 0, Completed 0x20 0, Completed 0xF8 0]))))
     = Some 3 \<and>
   map_option (bus \<circ> snd)
     (write_reg avr 0x50 0x10
        (timeOut 100 (power_on (script [Completed 0x08 0, Completed 0x20 0, Completed 0xF8 0]))))
     = Some [IssueStart, IssueAddress 0xA0, IssueStop, IssueByte 0x10, Reset] \<and>
   map_option fst
     (write16_reg avr 0x50 0x0010
        (timeOut 100 (power_on (script [Completed 0x08 0, Completed 0x20 0, Completed 0xF8 0]))))
     = Some 0x20 \<and>
   map_option (bus \<circ> snd)
     (write16_reg avr 0x50 0x0010
        (timeOut 100 (power_on (script [Completed 0x08 0, Completed 0x20 0, Completed 0xF8 0]))))
     = Some [IssueStart, IssueAddress 0xA0, IssueStop]"
  by (simp add: write_reg_def write16_reg_def run_defs)

text \<open>
  C3, on the code: the register byte of \<^verbatim>\<open>read(address, registerAddress, numberBytes)\<close>
  times out. The read returns 5, the code of an address in receiver mode; \<^verbatim>\<open>read16\<close>
  returns 3 on the same bus.
\<close>

theorem read_reg_register_byte_timeout:
  "map_option fst
     (read_reg avr 0x68 0x00 4
        (timeOut 100 (power_on (script [Completed 0x08 0, Completed 0x18 0, Stalled]))))
     = Some 5 \<and>
   map_option fst
     (read16_reg avr 0x68 0x0000 4
        (timeOut 100 (power_on (script [Completed 0x08 0, Completed 0x18 0, Stalled]))))
     = Some 3"
  by (simp add: read_reg_def read16_reg_def run_defs Let_def)

text \<open>
  C4, on the code: the repeated start of \<^verbatim>\<open>read16\<close> into a caller's buffer times out.
  The read returns 1, the code of the first start; \<^verbatim>\<open>read16\<close> into the internal buffer
  returns 4 on the same bus.
\<close>

theorem read16_reg_into_repeated_start_timeout:
  "map_option fst
     (read16_reg_into avr 0x50 0x1234 4 (\<lambda>_. 0)
        (timeOut 100 (power_on (script
           [Completed 0x08 0, Completed 0x18 0, Completed 0x28 0, Completed 0x28 0, Stalled]))))
     = Some 1 \<and>
   map_option fst
     (read16_reg avr 0x50 0x1234 4
        (timeOut 100 (power_on (script
           [Completed 0x08 0, Completed 0x18 0, Completed 0x28 0, Completed 0x28 0, Stalled]))))
     = Some 4"
  by (simp add: read16_reg_into_def read16_reg_def run_defs Let_def)

text \<open>
  C5, on the code: the write address of the block \<^verbatim>\<open>write16\<close> times out. The write
  returns 5, the code of the read direction; \<^verbatim>\<open>write16(address, registerAddress)\<close>
  returns 2 on the same bus, and a read address that times out gives 5.
\<close>

theorem write16_bytes_address_timeout:
  "map_option fst
     (write16_bytes avr 0x50 0x1234 (nth [0xDE, 0xAD]) 2
        (timeOut 100 (power_on (script [Completed 0x08 0, Stalled]))))
     = Some 5 \<and>
   map_option fst
     (write16_reg avr 0x50 0x1234
        (timeOut 100 (power_on (script [Completed 0x08 0, Stalled]))))
     = Some 2 \<and>
   map_option fst
     (read_n avr 0x50 1
        (timeOut 100 (power_on (script [Completed 0x08 0, Stalled]))))
     = Some 5"
  by (simp add: write16_bytes_def write16_reg_def read_n_def run_defs Let_def)

section \<open>Byte order on the bus\<close>









































end
